theory Spec2Isabelle
  imports Complex_Main
begin

section \<open>Numeric model\<close>

text \<open>
  The program computes on one-dimensional numpy arrays of IEEE doubles. The embedding
  idealises a double as a \<^typ>\<open>real\<close> and an array as a \<^typ>\<open>real list\<close>: rounding,
  overflow and the non-finite values \<open>nan\<close> and \<open>inf\<close> are outside the model. Where numpy
  divides an array by zero it warns and stores a non-finite value; the model has HOL's
  \<open>a / 0 = 0\<close> there. The theorems that give an output value assume the divisor nonzero;
  the others speak of lengths, or say that an output is determined by its inputs, which
  holds for the non-finite values as well. A statement that the specification makes
  "within floating-point tolerance" is an exact equation over the reals.

  Exceptions are values. Python raises \<open>ZeroDivisionError\<close> when two Python numbers are
  divided and the divisor is zero, \<open>IndexError\<close> on an index out of range and
  \<open>ValueError\<close> both for the program's own \<open>raise\<close> statements and for numpy operands
  whose shapes cannot be broadcast together.
\<close>

datatype py_error = ValueError string | ZeroDivisionError | IndexError

type_synonym ndarray = "real list"

type_synonym coords = "ndarray \<times> ndarray"

definition bindE :: "py_error + 'a \<Rightarrow> ('a \<Rightarrow> py_error + 'b) \<Rightarrow> py_error + 'b" where
  "bindE m f = (case m of Inl e \<Rightarrow> Inl e | Inr v \<Rightarrow> f v)"

definition py_div :: "real \<Rightarrow> real \<Rightarrow> py_error + real" where
  "py_div a b = (if b = 0 then Inl ZeroDivisionError else Inr (a / b))"

text \<open>\<open>theta[-1]\<close>: the last element, \<open>IndexError\<close> on an empty array.\<close>

definition last_item :: "ndarray \<Rightarrow> py_error + real" where
  "last_item xs = (if xs = [] then Inl IndexError else Inr (last xs))"

text \<open>
  An operator between two arrays follows numpy's broadcasting for one dimension: equal
  lengths combine index by index, an array of length one is repeated along the other,
  anything else raises.
\<close>

definition broadcast_error :: py_error where
  "broadcast_error = ValueError ''operands could not be broadcast together''"

definition broadcast2 :: "(real \<Rightarrow> real \<Rightarrow> real) \<Rightarrow> ndarray \<Rightarrow> ndarray \<Rightarrow> py_error + ndarray" where
  "broadcast2 f xs ys =
     (if length xs = length ys then Inr (map2 f xs ys)
      else if length xs = 1 then Inr (map (f (hd xs)) ys)
      else if length ys = 1 then Inr (map (\<lambda>x. f x (hd ys)) xs)
      else Inl broadcast_error)"

definition arr_add :: "ndarray \<Rightarrow> ndarray \<Rightarrow> py_error + ndarray" where
  "arr_add = broadcast2 (+)"

definition arr_sub :: "ndarray \<Rightarrow> ndarray \<Rightarrow> py_error + ndarray" where
  "arr_sub = broadcast2 (-)"

definition arr_mul :: "ndarray \<Rightarrow> ndarray \<Rightarrow> py_error + ndarray" where
  "arr_mul = broadcast2 (*)"

text \<open>Operators between a Python number and an array, and numpy's element-wise functions.\<close>

definition scalar_mul :: "real \<Rightarrow> ndarray \<Rightarrow> ndarray" where
  "scalar_mul c xs = map (\<lambda>v. c * v) xs"

definition scalar_add :: "real \<Rightarrow> ndarray \<Rightarrow> ndarray" where
  "scalar_add c xs = map (\<lambda>v. c + v) xs"

definition div_scalar :: "ndarray \<Rightarrow> real \<Rightarrow> ndarray" where
  "div_scalar xs c = map (\<lambda>v. v / c) xs"

definition np_cos :: "ndarray \<Rightarrow> ndarray" where
  "np_cos xs = map cos xs"

definition np_sin :: "ndarray \<Rightarrow> ndarray" where
  "np_sin xs = map sin xs"

definition deg2rad :: "real \<Rightarrow> real" where
  "deg2rad d = d * (pi / 180)"

section \<open>standard_transforms.py\<close>

text \<open>
  \<open>circular_motion(x, y, theta, radius=50, speed=0.01)\<close>. Keyword defaults of the source are
  explicit arguments of the model.
\<close>

definition circular_motion :: "ndarray \<Rightarrow> ndarray \<Rightarrow> ndarray \<Rightarrow> real \<Rightarrow> real \<Rightarrow> py_error + coords" where
  "circular_motion x y theta radius speed =
     bindE (arr_add x (scalar_mul radius (np_cos (scalar_mul speed theta)))) (\<lambda>x_transformed.
     bindE (arr_add y (scalar_mul radius (np_sin (scalar_mul speed theta)))) (\<lambda>y_transformed.
     Inr (x_transformed, y_transformed)))"

text \<open>
  \<open>translate_scale_rotate_transform(x, y, theta, x_offset=0, y_offset=0, scale_x=1.0,
  scale_y=1.0, rotation_angle=0)\<close>: scale, rotate by \<open>rotation_angle\<close> degrees, translate.
\<close>

definition translate_scale_rotate_transform ::
  "ndarray \<Rightarrow> ndarray \<Rightarrow> ndarray \<Rightarrow> real \<Rightarrow> real \<Rightarrow> real \<Rightarrow> real \<Rightarrow> real \<Rightarrow> py_error + coords" where
  "translate_scale_rotate_transform x y theta x_offset y_offset scale_x scale_y rotation_angle =
     (let x_transformed = scalar_mul scale_x x;
          y_transformed = scalar_mul scale_y y;
          rotation_radians = deg2rad rotation_angle
      in bindE (arr_sub (scalar_mul (cos rotation_radians) x_transformed)
                        (scalar_mul (sin rotation_radians) y_transformed)) (\<lambda>x_rotated.
         bindE (arr_add (scalar_mul (sin rotation_radians) x_transformed)
                        (scalar_mul (cos rotation_radians) y_transformed)) (\<lambda>y_rotated.
         Inr (scalar_add x_offset x_rotated, scalar_add y_offset y_rotated))))"

text \<open>\<open>paper_rotation(x, y, theta, degrees)\<close>: the rotation angle grows linearly with theta.\<close>

definition rotate_by :: "ndarray \<Rightarrow> ndarray \<Rightarrow> ndarray \<Rightarrow> py_error + coords" where
  "rotate_by x y phi =
     bindE (arr_mul x (np_cos phi)) (\<lambda>xc.
     bindE (arr_mul y (np_sin phi)) (\<lambda>ys.
     bindE (arr_sub xc ys) (\<lambda>x_transformed.
     bindE (arr_mul x (np_sin phi)) (\<lambda>xs.
     bindE (arr_mul y (np_cos phi)) (\<lambda>yc.
     bindE (arr_add xs yc) (\<lambda>y_transformed.
     Inr (x_transformed, y_transformed)))))))"

definition paper_rotation :: "ndarray \<Rightarrow> ndarray \<Rightarrow> ndarray \<Rightarrow> real \<Rightarrow> py_error + coords" where
  "paper_rotation x y theta degrees =
     (let total_rotation_radians = deg2rad degrees
      in bindE (last_item theta) (\<lambda>theta_max.
         let phi = scalar_mul total_rotation_radians (div_scalar theta theta_max)
         in rotate_by x y phi))"

text \<open>\<open>mystery_lines(x, y, theta, spiral_rate, frequency)\<close>: both coordinates use \<open>np.sin\<close>.\<close>

definition mystery_r :: "real \<Rightarrow> real \<Rightarrow> ndarray \<Rightarrow> ndarray" where
  "mystery_r spiral_rate frequency theta =
     (let amplitude = spiral_rate
      in scalar_add spiral_rate (scalar_mul amplitude (np_sin (scalar_mul frequency theta))))"

definition mystery_lines :: "ndarray \<Rightarrow> ndarray \<Rightarrow> ndarray \<Rightarrow> real \<Rightarrow> real \<Rightarrow> py_error + coords" where
  "mystery_lines x y theta spiral_rate frequency =
     (let r = mystery_r spiral_rate frequency theta
      in bindE (arr_mul r (np_sin theta)) (\<lambda>rs.
         bindE (arr_add x rs) (\<lambda>x_transformed.
         bindE (arr_mul r (np_sin theta)) (\<lambda>rs'.
         bindE (arr_add y rs') (\<lambda>y_transformed.
         Inr (x_transformed, y_transformed))))))"

text \<open>\<open>linear_translation_transform(x, y, theta, total_distance, movement_angle_degrees)\<close>.\<close>

definition linear_translation_transform ::
  "ndarray \<Rightarrow> ndarray \<Rightarrow> ndarray \<Rightarrow> real \<Rightarrow> real \<Rightarrow> py_error + coords" where
  "linear_translation_transform x y theta total_distance movement_angle_degrees =
     (let movement_angle = deg2rad movement_angle_degrees
      in bindE (last_item theta) (\<lambda>theta_max.
         let p = div_scalar theta theta_max;
             delta_x = scalar_mul (cos movement_angle) (scalar_mul total_distance p);
             delta_y = scalar_mul (sin movement_angle) (scalar_mul total_distance p)
         in bindE (arr_add x delta_x) (\<lambda>x_transformed.
            bindE (arr_add y delta_y) (\<lambda>y_transformed.
            Inr (x_transformed, y_transformed)))))"

text \<open>
  \<open>paper_rotation_transform_non_linear(x, y, theta, degrees, rotation_rate_function)\<close>. The
  last argument is a Python string or a callable; the callable is applied to the whole
  array of normalized angles and its result is clipped to the unit interval.
\<close>

datatype rate_function = RateName string | RateCallable "ndarray \<Rightarrow> ndarray"

definition np_clip :: "ndarray \<Rightarrow> real \<Rightarrow> real \<Rightarrow> ndarray" where
  "np_clip xs lo hi = map (\<lambda>v. min hi (max lo v)) xs"

definition rate_error :: py_error where
  "rate_error = ValueError
     ''Invalid rotation_rate_function. Use 'linear', 'quadratic', 'sinusoidal', or provide a function.''"

definition rotation_phi :: "rate_function \<Rightarrow> ndarray \<Rightarrow> real \<Rightarrow> py_error + ndarray" where
  "rotation_phi rotation_rate_function normalized_theta total_rotation_radians =
     (case rotation_rate_function of
        RateName name \<Rightarrow>
          if name = ''linear'' then
            Inr (scalar_mul total_rotation_radians normalized_theta)
          else if name = ''quadratic'' then
            Inr (scalar_mul total_rotation_radians (map (\<lambda>v. v ^ 2) normalized_theta))
          else if name = ''sinusoidal'' then
            Inr (scalar_mul total_rotation_radians
                   (np_sin (div_scalar (scalar_mul pi normalized_theta) 2)))
          else Inl rate_error
      | RateCallable f \<Rightarrow>
          (let phi_normalized = f normalized_theta;
               phi_normalized = np_clip phi_normalized 0 1
           in Inr (scalar_mul total_rotation_radians phi_normalized)))"

definition paper_rotation_transform_non_linear ::
  "ndarray \<Rightarrow> ndarray \<Rightarrow> ndarray \<Rightarrow> real \<Rightarrow> rate_function \<Rightarrow> py_error + coords" where
  "paper_rotation_transform_non_linear x y theta degrees rotation_rate_function =
     (let total_rotation_radians = deg2rad degrees
      in bindE (last_item theta) (\<lambda>theta_max.
         let normalized_theta = div_scalar theta theta_max
         in bindE (rotation_phi rotation_rate_function normalized_theta total_rotation_radians)
              (\<lambda>phi. rotate_by x y phi)))"

subsection \<open>Tracing a vector path\<close>

text \<open>
  The path object comes from the external library svgpathtools. The transform uses two of
  its methods, which the model takes as functions: \<open>length(T0, T1)\<close>, the arc length between
  two parameter values (\<open>length()\<close> is \<open>length(0, 1)\<close>), and \<open>point(t)\<close>, a complex number.
\<close>

record svg_path =
  path_length :: "real \<Rightarrow> real \<Rightarrow> real"
  path_point :: "real \<Rightarrow> complex"

text \<open>
  \<open>np.linspace(start, stop, num)\<close> with the end point included: \<open>num\<close> samples at the
  constant step \<open>(stop - start) / (num - 1)\<close>, the last one overwritten with \<open>stop\<close>.
\<close>

definition linspace :: "real \<Rightarrow> real \<Rightarrow> int \<Rightarrow> py_error + ndarray" where
  "linspace start stop num =
     (if num < 0 then Inl (ValueError ''Number of samples must be non-negative'')
      else
        let n = nat num;
            step = (stop - start) / of_int (num - 1);
            y = map (\<lambda>i. start + of_nat i * step) [0..<n]
        in Inr (if num > 1 then y[n - 1 := stop] else y))"

text \<open>\<open>np.maximum.accumulate\<close>: the running maximum.\<close>

fun accumulate_from :: "real \<Rightarrow> ndarray \<Rightarrow> ndarray" where
  "accumulate_from m [] = []"
| "accumulate_from m (v # vs) = max m v # accumulate_from (max m v) vs"

definition maximum_accumulate :: "ndarray \<Rightarrow> ndarray" where
  "maximum_accumulate xs = (case xs of [] \<Rightarrow> [] | v # vs \<Rightarrow> v # accumulate_from v vs)"

text \<open>
  \<open>np.interp(x, xp, fp)\<close> for nondecreasing sample points \<open>xp\<close>, where numpy defines it:
  the first and last values outside the range of \<open>xp\<close>, and inside it the segment \<open>j\<close> with
  \<open>xp[j] \<le> x < xp[j+1]\<close>, interpolated linearly. An empty \<open>xp\<close> raises.
\<close>

fun interp_scan :: "real \<Rightarrow> (real \<times> real) list \<Rightarrow> real" where
  "interp_scan x [] = 0"
| "interp_scan x [(x0, f0)] = f0"
| "interp_scan x ((x0, f0) # (x1, f1) # rest) =
     (if x < x1 then (if x0 = x then f0 else (f1 - f0) / (x1 - x0) * (x - x0) + f0)
      else interp_scan x ((x1, f1) # rest))"

definition interp_at :: "ndarray \<Rightarrow> ndarray \<Rightarrow> real \<Rightarrow> real" where
  "interp_at xp fp x =
     (if x < hd xp then hd fp
      else if x > last xp then last fp
      else interp_scan x (zip xp fp))"

definition np_interp :: "ndarray \<Rightarrow> ndarray \<Rightarrow> ndarray \<Rightarrow> py_error + ndarray" where
  "np_interp xs xp fp =
     (if xp = [] then Inl (ValueError ''array of sample points is empty'')
      else if length fp \<noteq> length xp then Inl (ValueError ''fp and xp are not of the same length.'')
      else Inr (map (interp_at xp fp) xs))"

text \<open>\<open>cumulative_lengths[-1] = total_length\<close>.\<close>

definition set_last :: "ndarray \<Rightarrow> real \<Rightarrow> py_error + ndarray" where
  "set_last xs v = (if xs = [] then Inl IndexError else Inr (xs[length xs - 1 := v]))"

definition num_samples :: int where
  "num_samples = 10000"

text \<open>
  \<open>svg_path_transform(x, y, theta, svg_path, scale=1.0, offset_x=0.0, offset_y=0.0)\<close>:
  resample the path by arc length.
\<close>

definition svg_path_transform ::
  "ndarray \<Rightarrow> ndarray \<Rightarrow> ndarray \<Rightarrow> svg_path \<Rightarrow> real \<Rightarrow> real \<Rightarrow> real \<Rightarrow> py_error + coords" where
  "svg_path_transform x y theta path scale offset_x offset_y =
     bindE (last_item theta) (\<lambda>theta_max.
     let theta_normalized = div_scalar theta theta_max;
         total_length = path_length path 0 1;
         distances = scalar_mul total_length theta_normalized
     in bindE (linspace 0 1 num_samples) (\<lambda>t_vals.
        let cumulative_lengths = map (\<lambda>t. path_length path 0 t) t_vals;
            cumulative_lengths = maximum_accumulate cumulative_lengths
        in bindE (set_last cumulative_lengths total_length) (\<lambda>cumulative_lengths.
           bindE (np_interp distances cumulative_lengths t_vals) (\<lambda>t_values.
           let points = map (path_point path) t_values;
               path_x = map Re points;
               path_y = map Im points;
               path_x = scalar_add offset_x (scalar_mul scale path_x);
               path_y = scalar_add offset_y (scalar_mul scale path_y)
           in Inr (path_x, path_y)))))"

section \<open>Loops and item access\<close>

text \<open>
  \<open>a[i]\<close> and \<open>a[i] = v\<close> for an index counted from the front, and for a Python integer
  index, where a negative index counts from the end.
\<close>

definition getitem :: "'a list \<Rightarrow> nat \<Rightarrow> py_error + 'a" where
  "getitem xs i = (if i < length xs then Inr (xs ! i) else Inl IndexError)"

definition setitem :: "'a list \<Rightarrow> nat \<Rightarrow> 'a \<Rightarrow> py_error + 'a list" where
  "setitem xs i v = (if i < length xs then Inr (xs[i := v]) else Inl IndexError)"

definition getitem_int :: "'a list \<Rightarrow> int \<Rightarrow> py_error + 'a" where
  "getitem_int xs i =
     (let n = int (length xs); j = (if i < 0 then n + i else i)
      in if 0 \<le> j \<and> j < n then Inr (xs ! nat j) else Inl IndexError)"

text \<open>A \<open>for\<close> loop over a list, threading the loop's variables; an exception ends it.\<close>

fun for_each :: "('i \<Rightarrow> 's \<Rightarrow> py_error + 's) \<Rightarrow> 'i list \<Rightarrow> 's \<Rightarrow> py_error + 's" where
  "for_each body [] s = Inr s"
| "for_each body (i # is) s = bindE (body i s) (for_each body is)"

definition enumerate_arr :: "ndarray \<Rightarrow> (nat \<times> real) list" where
  "enumerate_arr xs = zip [0..<length xs] xs"

definition zeros_like :: "ndarray \<Rightarrow> ndarray" where
  "zeros_like xs = replicate (length xs) 0"

text \<open>\<open>a % b\<close> and \<open>a // b\<close> on floats: the remainder has the sign of the divisor.\<close>

definition py_floordiv :: "real \<Rightarrow> real \<Rightarrow> int" where
  "py_floordiv a b = \<lfloor>a / b\<rfloor>"

definition py_mod :: "real \<Rightarrow> real \<Rightarrow> real" where
  "py_mod a b = a - b * of_int \<lfloor>a / b\<rfloor>"

section \<open>spiral_transforms.py\<close>

text \<open>\<open>spiral_transform(x, y, theta, spiral_rate, a=1, b=1)\<close>.\<close>

definition spiral_transform ::
  "ndarray \<Rightarrow> ndarray \<Rightarrow> ndarray \<Rightarrow> real \<Rightarrow> real \<Rightarrow> real \<Rightarrow> py_error + coords" where
  "spiral_transform x y theta spiral_rate a b =
     (let r = scalar_add 1 (scalar_mul spiral_rate theta)
      in bindE (arr_mul (scalar_mul a r) (np_cos theta)) (\<lambda>dx.
         bindE (arr_add x dx) (\<lambda>x_transformed.
         bindE (arr_mul (scalar_mul b r) (np_sin theta)) (\<lambda>dy.
         bindE (arr_add y dy) (\<lambda>y_transformed.
         Inr (x_transformed, y_transformed))))))"

text \<open>\<open>spiral_oscillator(x, y, theta, spiral_rate, frequency, const=0, a=1, b=1)\<close>.\<close>

definition spiral_oscillator ::
  "ndarray \<Rightarrow> ndarray \<Rightarrow> ndarray \<Rightarrow> real \<Rightarrow> real \<Rightarrow> real \<Rightarrow> real \<Rightarrow> real \<Rightarrow> py_error + coords" where
  "spiral_oscillator x y theta spiral_rate frequency const a b =
     (let amplitude = spiral_rate;
          r = scalar_add spiral_rate (scalar_mul amplitude (np_sin (scalar_mul frequency theta)))
      in bindE (arr_mul (scalar_mul a (scalar_add const r)) (np_cos theta)) (\<lambda>dx.
         bindE (arr_add x dx) (\<lambda>x_transformed.
         bindE (arr_mul (scalar_mul b (scalar_add const r)) (np_sin theta)) (\<lambda>dy.
         bindE (arr_add y dy) (\<lambda>y_transformed.
         Inr (x_transformed, y_transformed))))))"

text \<open>
  The radial distance \<open>r = start_rate * theta + (delta_rate / (2 * theta_max)) * theta ** 2\<close>,
  which the four variable-rate spirals compute alike.
\<close>

definition variable_r :: "real \<Rightarrow> real \<Rightarrow> ndarray \<Rightarrow> real \<Rightarrow> py_error + ndarray" where
  "variable_r start_rate end_rate theta theta_max =
     (let delta_rate = end_rate - start_rate
      in arr_add (scalar_mul start_rate theta)
                 (scalar_mul (delta_rate / (2 * theta_max)) (map (\<lambda>v. v ^ 2) theta)))"

text \<open>\<open>variable_spiral_transform(x, y, theta, start_rate, end_rate, a=1, b=1)\<close>.\<close>

definition variable_spiral_transform ::
  "ndarray \<Rightarrow> ndarray \<Rightarrow> ndarray \<Rightarrow> real \<Rightarrow> real \<Rightarrow> real \<Rightarrow> real \<Rightarrow> py_error + coords" where
  "variable_spiral_transform x y theta start_rate end_rate a b =
     bindE (last_item theta) (\<lambda>theta_max.
     bindE (variable_r start_rate end_rate theta theta_max) (\<lambda>r.
     bindE (arr_mul (scalar_mul a r) (np_cos theta)) (\<lambda>dx.
     bindE (arr_add x dx) (\<lambda>x_transformed.
     bindE (arr_mul (scalar_mul b r) (np_sin theta)) (\<lambda>dy.
     bindE (arr_add y dy) (\<lambda>y_transformed.
     Inr (x_transformed, y_transformed)))))))"

text \<open>
  \<open>variable_spiral_triangle_transform(x, y, theta, start_rate, end_rate, side1=1, side2=1,
  side3=1)\<close>. The point of the triangle's boundary for one angle, then the loop that stores
  it, scaled by \<open>r[i]\<close>, at index \<open>i\<close> of arrays shaped like \<open>x\<close> and \<open>y\<close>.
\<close>

type_synonym point = "real \<times> real"

definition lerp :: "real \<Rightarrow> point \<Rightarrow> point \<Rightarrow> point" where
  "lerp t p q = ((1 - t) * fst p + t * fst q, (1 - t) * snd p + t * snd q)"

definition triangle_point :: "point \<Rightarrow> point \<Rightarrow> point \<Rightarrow> real \<Rightarrow> point" where
  "triangle_point vertex1 vertex2 vertex3 angle =
     (let norm_angle = py_mod angle (2 * pi)
      in if norm_angle < 2 * pi / 3 then
           lerp (norm_angle / (2 * pi / 3)) vertex1 vertex2
         else if norm_angle < 4 * pi / 3 then
           lerp ((norm_angle - 2 * pi / 3) / (2 * pi / 3)) vertex2 vertex3
         else
           lerp ((norm_angle - 4 * pi / 3) / (2 * pi / 3)) vertex3 vertex1)"

definition store_scaled :: "ndarray \<Rightarrow> nat \<Rightarrow> point \<Rightarrow> coords \<Rightarrow> py_error + coords" where
  "store_scaled r i p s =
     (case s of (x_transformed, y_transformed) \<Rightarrow>
        bindE (setitem x_transformed i (fst p)) (\<lambda>x_transformed.
        bindE (setitem y_transformed i (snd p)) (\<lambda>y_transformed.
        bindE (getitem r i) (\<lambda>ri.
        bindE (getitem x_transformed i) (\<lambda>xi.
        bindE (setitem x_transformed i (ri * xi)) (\<lambda>x_transformed.
        bindE (getitem r i) (\<lambda>ri.
        bindE (getitem y_transformed i) (\<lambda>yi.
        bindE (setitem y_transformed i (ri * yi)) (\<lambda>y_transformed.
        Inr (x_transformed, y_transformed))))))))))"

definition triangle_body :: "point \<Rightarrow> point \<Rightarrow> point \<Rightarrow> ndarray \<Rightarrow> nat \<times> real \<Rightarrow> coords \<Rightarrow> py_error + coords" where
  "triangle_body vertex1 vertex2 vertex3 r ia s =
     (case ia of (i, angle) \<Rightarrow> store_scaled r i (triangle_point vertex1 vertex2 vertex3 angle) s)"

definition variable_spiral_triangle_transform ::
  "ndarray \<Rightarrow> ndarray \<Rightarrow> ndarray \<Rightarrow> real \<Rightarrow> real \<Rightarrow> real \<Rightarrow> real \<Rightarrow> real \<Rightarrow> py_error + coords" where
  "variable_spiral_triangle_transform x y theta start_rate end_rate side1 side2 side3 =
     (let vertex1 = (0, 1);
          vertex2 = (- side1 * sqrt 3 / 2, - 0.5 * side1);
          vertex3 = (side3 * sqrt 3 / 2, - 0.5 * side3)
      in bindE (last_item theta) (\<lambda>theta_max.
         bindE (variable_r start_rate end_rate theta theta_max) (\<lambda>r.
         for_each (triangle_body vertex1 vertex2 vertex3 r) (enumerate_arr theta)
           (zeros_like x, zeros_like y))))"

text \<open>
  \<open>variable_spiral_regular_ngon_transform(x, y, theta, start_rate, end_rate, side_lengths)\<close>
  and \<open>variable_spiral_ngon_transform\<close> with the same arguments. The second prints a warning
  that it does not work properly and then runs the same statements as the first.

  First loop: the vertices, from the side lengths by the law of cosines. \<open>side_lengths\<close> is
  a Python list of numbers, so a zero product of two sides raises.
\<close>

definition ngon_vertex_body ::
  "real list \<Rightarrow> nat \<Rightarrow> point list \<times> point \<times> real \<Rightarrow> py_error + point list \<times> point \<times> real" where
  "ngon_vertex_body side_lengths i s =
     (case s of (vertices, current_vertex, current_angle) \<Rightarrow>
        let n = length side_lengths
        in bindE (getitem side_lengths (i - 1)) (\<lambda>side_a.
           bindE (getitem side_lengths i) (\<lambda>side_b.
           bindE (getitem side_lengths ((i + 1) mod n)) (\<lambda>side_c.
           bindE (py_div (side_a ^ 2 + side_b ^ 2 - side_c ^ 2) (2 * side_a * side_b)) (\<lambda>cos_angle.
           let internal_angle = arccos (min 1 (max (- 1) cos_angle));
               current_angle = current_angle - internal_angle;
               next_vertex = (fst current_vertex + side_b * cos current_angle,
                              snd current_vertex + side_b * sin current_angle)
           in Inr (vertices @ [next_vertex], next_vertex, current_angle))))))"

definition ngon_vertices :: "real list \<Rightarrow> py_error + point list" where
  "ngon_vertices side_lengths =
     (let n = length side_lengths;
          current_vertex = (0, 1)
      in bindE (for_each (ngon_vertex_body side_lengths) [1..<n]
                  ([current_vertex], current_vertex, pi / 2))
           (\<lambda>s. Inr (fst s)))"

text \<open>Second loop: the boundary point of the polygon for each angle.\<close>

definition ngon_body :: "nat \<Rightarrow> point list \<Rightarrow> ndarray \<Rightarrow> nat \<times> real \<Rightarrow> coords \<Rightarrow> py_error + coords" where
  "ngon_body n vertices r ia s =
     (case ia of (i, angle) \<Rightarrow>
        let norm_angle = py_mod angle (2 * pi)
        in bindE (py_div (2 * pi) (real n)) (\<lambda>segment_angle.
           let side_index = py_floordiv norm_angle segment_angle;
               t = py_mod norm_angle segment_angle / segment_angle
           in bindE (getitem_int vertices side_index) (\<lambda>vertex_start.
              bindE (getitem_int vertices ((side_index + 1) mod int n)) (\<lambda>vertex_end.
              store_scaled r i (lerp t vertex_start vertex_end) s))))"

definition variable_spiral_regular_ngon_transform ::
  "ndarray \<Rightarrow> ndarray \<Rightarrow> ndarray \<Rightarrow> real \<Rightarrow> real \<Rightarrow> real list \<Rightarrow> py_error + coords" where
  "variable_spiral_regular_ngon_transform x y theta start_rate end_rate side_lengths =
     (let n = length side_lengths
      in bindE (last_item theta) (\<lambda>theta_max.
         bindE (variable_r start_rate end_rate theta theta_max) (\<lambda>r.
         bindE (ngon_vertices side_lengths) (\<lambda>vertices.
         for_each (ngon_body n vertices r) (enumerate_arr theta)
           (zeros_like x, zeros_like y)))))"

definition variable_spiral_ngon_transform ::
  "ndarray \<Rightarrow> ndarray \<Rightarrow> ndarray \<Rightarrow> real \<Rightarrow> real \<Rightarrow> real list \<Rightarrow> py_error + coords" where
  "variable_spiral_ngon_transform x y theta start_rate end_rate side_lengths =
     variable_spiral_regular_ngon_transform x y theta start_rate end_rate side_lengths"

section \<open>spirograph_transforms.py\<close>

text \<open>
  The file defines \<open>elliptical_spirograph_transform\<close> and \<open>spirograph_transform\<close> twice, with
  the same text; the later definitions are the ones Python keeps. The radii and distances
  are Python numbers, so \<open>(R - r) / r\<close> and \<open>a / r\<close> raise when \<open>r\<close> is zero.
\<close>

definition trochoid_mode_error :: py_error where
  "trochoid_mode_error = ValueError ''Invalid mode. Use 'hypotrochoid' or 'epitrochoid'.''"

definition cyclogon_mode_error :: py_error where
  "cyclogon_mode_error = ValueError ''Invalid mode. Use 'hypocyclogon' or 'epicyclogon'.''"

text \<open>\<open>elliptical_spirograph_transform(x, y, theta, R, r, d, a, b, mode)\<close>.\<close>

definition elliptical_spirograph_transform ::
  "ndarray \<Rightarrow> ndarray \<Rightarrow> ndarray \<Rightarrow> real \<Rightarrow> real \<Rightarrow> real \<Rightarrow> real \<Rightarrow> real \<Rightarrow> string \<Rightarrow> py_error + coords" where
  "elliptical_spirograph_transform x y theta R r d a b mode =
     (if mode = ''hypotrochoid'' then
        bindE (arr_add x (scalar_mul (R - r) (np_cos theta))) (\<lambda>x1.
        bindE (py_div a r) (\<lambda>ar.
        bindE (py_div (R - r) r) (\<lambda>k.
        bindE (arr_add x1 (scalar_mul (d * ar) (np_cos (scalar_mul k theta)))) (\<lambda>x_transformed.
        bindE (arr_add y (scalar_mul (R - r) (np_sin theta))) (\<lambda>y1.
        bindE (py_div b r) (\<lambda>br.
        bindE (py_div (R - r) r) (\<lambda>k.
        bindE (arr_sub y1 (scalar_mul (d * br) (np_sin (scalar_mul k theta)))) (\<lambda>y_transformed.
        Inr (x_transformed, y_transformed)))))))))
      else if mode = ''epitrochoid'' then
        bindE (arr_add x (scalar_mul (R + r) (np_cos theta))) (\<lambda>x1.
        bindE (py_div a r) (\<lambda>ar.
        bindE (py_div (R + r) r) (\<lambda>k.
        bindE (arr_sub x1 (scalar_mul (d * ar) (np_cos (scalar_mul k theta)))) (\<lambda>x_transformed.
        bindE (arr_add y (scalar_mul (R + r) (np_sin theta))) (\<lambda>y1.
        bindE (py_div b r) (\<lambda>br.
        bindE (py_div (R + r) r) (\<lambda>k.
        bindE (arr_sub y1 (scalar_mul (d * br) (np_sin (scalar_mul k theta)))) (\<lambda>y_transformed.
        Inr (x_transformed, y_transformed)))))))))
      else Inl trochoid_mode_error)"

text \<open>\<open>spirograph_transform(x, y, theta, R, r, d, mode)\<close>.\<close>

definition spirograph_transform ::
  "ndarray \<Rightarrow> ndarray \<Rightarrow> ndarray \<Rightarrow> real \<Rightarrow> real \<Rightarrow> real \<Rightarrow> string \<Rightarrow> py_error + coords" where
  "spirograph_transform x y theta R r d mode =
     (if mode = ''hypotrochoid'' then
        bindE (arr_add x (scalar_mul (R - r) (np_cos theta))) (\<lambda>x1.
        bindE (py_div (R - r) r) (\<lambda>k.
        bindE (arr_add x1 (scalar_mul d (np_cos (scalar_mul k theta)))) (\<lambda>x_transformed.
        bindE (arr_add y (scalar_mul (R - r) (np_sin theta))) (\<lambda>y1.
        bindE (py_div (R - r) r) (\<lambda>k.
        bindE (arr_sub y1 (scalar_mul d (np_sin (scalar_mul k theta)))) (\<lambda>y_transformed.
        Inr (x_transformed, y_transformed)))))))
      else if mode = ''epitrochoid'' then
        bindE (arr_add x (scalar_mul (R + r) (np_cos theta))) (\<lambda>x1.
        bindE (py_div (R + r) r) (\<lambda>k.
        bindE (arr_sub x1 (scalar_mul d (np_cos (scalar_mul k theta)))) (\<lambda>x_transformed.
        bindE (arr_add y (scalar_mul (R + r) (np_sin theta))) (\<lambda>y1.
        bindE (py_div (R + r) r) (\<lambda>k.
        bindE (arr_sub y1 (scalar_mul d (np_sin (scalar_mul k theta)))) (\<lambda>y_transformed.
        Inr (x_transformed, y_transformed)))))))
      else Inl trochoid_mode_error)"

text \<open>
  \<open>polygon_spirograph_transform(x, y, theta, R, n, d, mode)\<close>. The circumradius \<open>r\<close> is
  computed before the mode is tested, and \<open>np.pi / n\<close> divides two Python numbers. From
  there on \<open>r\<close> is a numpy scalar, whose divisions do not raise.
\<close>

definition polygon_spirograph_transform ::
  "ndarray \<Rightarrow> ndarray \<Rightarrow> ndarray \<Rightarrow> real \<Rightarrow> real \<Rightarrow> real \<Rightarrow> string \<Rightarrow> py_error + coords" where
  "polygon_spirograph_transform x y theta R n d mode =
     bindE (py_div pi n) (\<lambda>pn.
     let r = (if mode = ''hypocyclogon'' then R * (sin pn / (1 + sin pn))
              else R * (sin pn / (1 - sin pn)))
     in if mode = ''hypocyclogon'' then
          let rotations = (R - r) / r;
              psi = scalar_mul rotations theta
          in bindE (arr_sub (div_scalar (scalar_mul (R - r) theta) r)
                            (scalar_mul (2 * pi / n) psi)) (\<lambda>phi.
             let xc = scalar_mul (R - r) (np_cos theta);
                 yc = scalar_mul (R - r) (np_sin theta)
             in bindE (arr_add x xc) (\<lambda>x1.
                bindE (arr_add x1 (scalar_mul d (np_cos phi))) (\<lambda>x_transformed.
                bindE (arr_add y yc) (\<lambda>y1.
                bindE (arr_add y1 (scalar_mul d (np_sin phi))) (\<lambda>y_transformed.
                Inr (x_transformed, y_transformed))))))
        else if mode = ''epicyclogon'' then
          let rotations = (R + r) / r;
              psi = scalar_mul rotations theta
          in bindE (arr_sub (div_scalar (scalar_mul (R + r) theta) r)
                            (scalar_mul (2 * pi / n) psi)) (\<lambda>phi.
             let xc = scalar_mul (R + r) (np_cos theta);
                 yc = scalar_mul (R + r) (np_sin theta)
             in bindE (arr_add x xc) (\<lambda>x1.
                bindE (arr_add x1 (scalar_mul d (np_cos phi))) (\<lambda>x_transformed.
                bindE (arr_add y yc) (\<lambda>y1.
                bindE (arr_add y1 (scalar_mul d (np_sin phi))) (\<lambda>y_transformed.
                Inr (x_transformed, y_transformed))))))
        else Inl cyclogon_mode_error)"

text \<open>
  \<open>spirograph_rectangle_transform(x, y, theta, rect_width, rect_height, gear_radius,
  tracing_point_dist)\<close>: the centre of the gear on the rectangle's perimeter for one angle,
  then the loop that adds the tracing point to copies of \<open>x\<close> and \<open>y\<close>.
\<close>

definition gear_center :: "real \<Rightarrow> real \<Rightarrow> real \<Rightarrow> real \<Rightarrow> point" where
  "gear_center rect_width rect_height gear_radius angle =
     (let perimeter = 2 * (rect_width + rect_height);
          distance_along_perimeter = py_mod (gear_radius * angle) perimeter
      in if distance_along_perimeter < rect_width then
           (- rect_width / 2 + distance_along_perimeter, rect_height / 2)
         else if distance_along_perimeter < rect_width + rect_height then
           (rect_width / 2, rect_height / 2 - (distance_along_perimeter - rect_width))
         else if distance_along_perimeter < 2 * rect_width + rect_height then
           (rect_width / 2 - (distance_along_perimeter - (rect_width + rect_height)),
            - rect_height / 2)
         else
           (- rect_width / 2,
            - rect_height / 2 + (distance_along_perimeter - (2 * rect_width + rect_height))))"

definition rectangle_body ::
  "real \<Rightarrow> real \<Rightarrow> real \<Rightarrow> real \<Rightarrow> nat \<times> real \<Rightarrow> coords \<Rightarrow> py_error + coords" where
  "rectangle_body rect_width rect_height gear_radius tracing_point_dist ia s =
     (case ia of (i, angle) \<Rightarrow> case s of (x_transformed, y_transformed) \<Rightarrow>
        let c = gear_center rect_width rect_height gear_radius angle;
            gear_rotation = angle * (rect_width + rect_height) / gear_radius
        in bindE (getitem x_transformed i) (\<lambda>xi.
           bindE (setitem x_transformed i
                    (xi + (fst c + tracing_point_dist * cos gear_rotation))) (\<lambda>x_transformed.
           bindE (getitem y_transformed i) (\<lambda>yi.
           bindE (setitem y_transformed i
                    (yi + (snd c + tracing_point_dist * sin gear_rotation))) (\<lambda>y_transformed.
           Inr (x_transformed, y_transformed))))))"

definition spirograph_rectangle_transform ::
  "ndarray \<Rightarrow> ndarray \<Rightarrow> ndarray \<Rightarrow> real \<Rightarrow> real \<Rightarrow> real \<Rightarrow> real \<Rightarrow> py_error + coords" where
  "spirograph_rectangle_transform x y theta rect_width rect_height gear_radius tracing_point_dist =
     for_each (rectangle_body rect_width rect_height gear_radius tracing_point_dist)
       (enumerate_arr theta) (x, y)"

section \<open>patterns.py: binding parameters\<close>

text \<open>
  \<open>transform(transform_func, *args, **kwargs)\<close> returns the closure
  \<open>lambda x, y, theta: transform_func(x, y, theta, *args, **kwargs)\<close>. A closure is a
  function of the three arrays; the library's functions with their bound parameters are
  enumerated by a datatype, and \<open>transform\<close> maps each to its closure.
\<close>

type_synonym transform_func = "ndarray \<Rightarrow> ndarray \<Rightarrow> ndarray \<Rightarrow> py_error + coords"

datatype bound_transform =
    CircularMotion real real
  | TranslateScaleRotate real real real real real
  | PaperRotation real
  | MysteryLines real real
  | LinearTranslation real real
  | PaperRotationNonLinear real rate_function
  | SvgPath svg_path real real real
  | Spiral real real real
  | SpiralOscillator real real real real real
  | VariableSpiral real real real real
  | VariableSpiralTriangle real real real real real
  | VariableSpiralRegularNgon real real "real list"
  | VariableSpiralNgon real real "real list"
  | EllipticalSpirograph real real real real real string
  | Spirograph real real real string
  | PolygonSpirograph real real real string
  | SpirographRectangle real real real real

fun transform :: "bound_transform \<Rightarrow> transform_func" where
  "transform (CircularMotion radius speed) x y theta = circular_motion x y theta radius speed"
| "transform (TranslateScaleRotate x_offset y_offset scale_x scale_y rotation_angle) x y theta =
     translate_scale_rotate_transform x y theta x_offset y_offset scale_x scale_y rotation_angle"
| "transform (PaperRotation degrees) x y theta = paper_rotation x y theta degrees"
| "transform (MysteryLines spiral_rate frequency) x y theta =
     mystery_lines x y theta spiral_rate frequency"
| "transform (LinearTranslation total_distance movement_angle_degrees) x y theta =
     linear_translation_transform x y theta total_distance movement_angle_degrees"
| "transform (PaperRotationNonLinear degrees rotation_rate_function) x y theta =
     paper_rotation_transform_non_linear x y theta degrees rotation_rate_function"
| "transform (SvgPath path scale offset_x offset_y) x y theta =
     svg_path_transform x y theta path scale offset_x offset_y"
| "transform (Spiral spiral_rate a b) x y theta = spiral_transform x y theta spiral_rate a b"
| "transform (SpiralOscillator spiral_rate frequency const a b) x y theta =
     spiral_oscillator x y theta spiral_rate frequency const a b"
| "transform (VariableSpiral start_rate end_rate a b) x y theta =
     variable_spiral_transform x y theta start_rate end_rate a b"
| "transform (VariableSpiralTriangle start_rate end_rate side1 side2 side3) x y theta =
     variable_spiral_triangle_transform x y theta start_rate end_rate side1 side2 side3"
| "transform (VariableSpiralRegularNgon start_rate end_rate side_lengths) x y theta =
     variable_spiral_regular_ngon_transform x y theta start_rate end_rate side_lengths"
| "transform (VariableSpiralNgon start_rate end_rate side_lengths) x y theta =
     variable_spiral_ngon_transform x y theta start_rate end_rate side_lengths"
| "transform (EllipticalSpirograph R r d a b mode) x y theta =
     elliptical_spirograph_transform x y theta R r d a b mode"
| "transform (Spirograph R r d mode) x y theta = spirograph_transform x y theta R r d mode"
| "transform (PolygonSpirograph R n d mode) x y theta =
     polygon_spirograph_transform x y theta R n d mode"
| "transform (SpirographRectangle rect_width rect_height gear_radius tracing_point_dist) x y theta =
     spirograph_rectangle_transform x y theta rect_width rect_height gear_radius tracing_point_dist"

text \<open>
  A custom rate callable keeps the shape of its argument at length \<open>N\<close>; every other
  bound transform satisfies this trivially.
\<close>

fun callable_keeps_shape :: "bound_transform \<Rightarrow> nat \<Rightarrow> bool" where
  "callable_keeps_shape (PaperRotationNonLinear degrees (RateCallable f)) N =
     (\<forall>p. length p = N \<longrightarrow> length (f p) = N)"
| "callable_keeps_shape t N = True"

section \<open>main.py: assembling one pattern\<close>

text \<open>
  The body of the loop of \<open>draw_pattern\<close> for one entry of \<open>patterns_meta\<close>, up to the
  call of the plotting library: the angle sequence for \<open>rotations\<close> turns at a fixed
  resolution, zero arrays of its shape, the pattern's transforms in order, and the final
  placement read from the optional \<open>translations\<close> dictionary with its defaults.
\<close>

definition resolution :: int where
  "resolution = 50000"

definition theta_sequence :: "real \<Rightarrow> py_error + ndarray" where
  "theta_sequence rotations = linspace 0 (2 * pi * rotations) resolution"

definition dict_get :: "(string \<rightharpoonup> real) \<Rightarrow> string \<Rightarrow> real \<Rightarrow> real" where
  "dict_get d k fallback = (case d k of None \<Rightarrow> fallback | Some v \<Rightarrow> v)"

definition apply_transforms :: "transform_func list \<Rightarrow> ndarray \<Rightarrow> coords \<Rightarrow> py_error + coords" where
  "apply_transforms transforms theta s =
     for_each (\<lambda>transform_func s. transform_func (fst s) (snd s) theta) transforms s"

definition draw_pattern_points ::
  "transform_func list \<Rightarrow> real \<Rightarrow> (string \<rightharpoonup> real) \<Rightarrow> py_error + coords" where
  "draw_pattern_points transforms rotations translations =
     (let x_offset = dict_get translations ''x_offset'' 0;
          y_offset = dict_get translations ''y_offset'' 0;
          scale_x = dict_get translations ''scale_x'' 1;
          scale_y = dict_get translations ''scale_y'' 1;
          rotation_angle = dict_get translations ''rotation_angle'' 0
      in bindE (theta_sequence rotations) (\<lambda>theta.
         let x = zeros_like theta;
             y = zeros_like theta
         in bindE (apply_transforms transforms theta (x, y)) (\<lambda>s.
            translate_scale_rotate_transform (fst s) (snd s) theta
              x_offset y_offset scale_x scale_y rotation_angle)))"

section \<open>Acting sample by sample\<close>

text \<open>
  A transform acts sample by sample when one function of the sweep's last angle and of
  the sample \<open>(x[i], y[i], theta[i])\<close> gives the output at index \<open>i\<close>, for all equal-length
  inputs on which the transform returns. A custom rate callable acts element-wise when
  it maps one function over its argument.
\<close>

definition samplewise :: "transform_func \<Rightarrow> bool" where
  "samplewise F \<longleftrightarrow>
     (\<exists>g. \<forall>x y theta x' y'.
        length x = length theta \<and> length y = length theta \<and> F x y theta = Inr (x', y') \<longrightarrow>
        (\<forall>i < length theta.
           x' ! i = fst (g (last theta) (x ! i) (y ! i) (theta ! i))
         \<and> y' ! i = snd (g (last theta) (x ! i) (y ! i) (theta ! i))))"

fun callable_elementwise :: "bound_transform \<Rightarrow> bool" where
  "callable_elementwise (PaperRotationNonLinear degrees (RateCallable f)) =
     (\<exists>g. \<forall>p. f p = map g p)"
| "callable_elementwise t = True"

section \<open>Properties\<close>

subsection \<open>Exceptions and arrays\<close>

lemma bindE_Inr [simp]: "bindE (Inr v) f = f v"
  by (simp add: bindE_def)

lemma bindE_Inl [simp]: "bindE (Inl e) f = Inl e"
  by (simp add: bindE_def)

lemma bindE_eq_Inr: "bindE m f = Inr r \<longleftrightarrow> (\<exists>v. m = Inr v \<and> f v = Inr r)"
  by (cases m) simp_all

lemma broadcast2_same: "length xs = length ys \<Longrightarrow> broadcast2 f xs ys = Inr (map2 f xs ys)"
  by (simp add: broadcast2_def)

lemma arr_add_same: "length xs = length ys \<Longrightarrow> arr_add xs ys = Inr (map2 (+) xs ys)"
  by (simp add: arr_add_def broadcast2_same)

lemma arr_sub_same: "length xs = length ys \<Longrightarrow> arr_sub xs ys = Inr (map2 (-) xs ys)"
  by (simp add: arr_sub_def broadcast2_same)

lemma arr_mul_same: "length xs = length ys \<Longrightarrow> arr_mul xs ys = Inr (map2 (*) xs ys)"
  by (simp add: arr_mul_def broadcast2_same)

lemma length_scalar_mul [simp]: "length (scalar_mul c xs) = length xs"
  by (simp add: scalar_mul_def)

lemma length_scalar_add [simp]: "length (scalar_add c xs) = length xs"
  by (simp add: scalar_add_def)

lemma length_div_scalar [simp]: "length (div_scalar xs c) = length xs"
  by (simp add: div_scalar_def)

lemma length_np_cos [simp]: "length (np_cos xs) = length xs"
  by (simp add: np_cos_def)

lemma length_np_sin [simp]: "length (np_sin xs) = length xs"
  by (simp add: np_sin_def)

lemma length_np_clip [simp]: "length (np_clip xs lo hi) = length xs"
  by (simp add: np_clip_def)

lemma length_zeros_like [simp]: "length (zeros_like xs) = length xs"
  by (simp add: zeros_like_def)

lemma map_mult_one: "map ((*) (1::real)) xs = xs"
  by (induction xs) simp_all

lemma map_add_zero: "map ((+) (0::real)) xs = xs"
  by (induction xs) simp_all

lemma map2_sub_zero: "length xs = length ys \<Longrightarrow> map2 (-) xs (map ((*) 0) ys) = (xs :: real list)"
  by (induction xs ys rule: list_induct2) simp_all

lemma map2_zero_add: "length xs = length ys \<Longrightarrow> map2 (+) (map ((*) 0) xs) ys = (ys :: real list)"
  by (induction xs ys rule: list_induct2) simp_all

subsection \<open>Final placement\<close>

text \<open>
  Claim C5. With the default placement parameters (offsets 0, scales 1, rotation angle 0),
  \<open>translate_scale_rotate_transform\<close> returns \<open>x\<close> and \<open>y\<close> exactly as they came in, for
  every pair of coordinate sequences of one length and every theta.
\<close>

theorem placement_identity:
  assumes "length x = length y"
  shows "translate_scale_rotate_transform x y theta 0 0 1 1 0 = Inr (x, y)"
  using assms
  by (simp add: translate_scale_rotate_transform_def deg2rad_def scalar_mul_def scalar_add_def
      arr_sub_same arr_add_same map2_sub_zero map2_zero_add map_mult_one map_add_zero)

theorem placement_identity_witness:
  "translate_scale_rotate_transform [3, 4] [5, 6] [0, 1] 0 0 1 1 0 = Inr ([3, 4], [5, 6])"
  using placement_identity [of "[3, 4]" "[5, 6]" "[0, 1]"] by simp

subsection \<open>The transform \<open>mystery_lines\<close>\<close>

text \<open>
  Claim C9. \<open>mystery_lines\<close> computes \<open>r = spiral_rate + spiral_rate * sin (frequency * theta)\<close>
  and adds the same increment \<open>r * sin theta\<close> to both coordinates, so that at every
  index the increment of \<open>x\<close> equals the increment of \<open>y\<close>.
\<close>

theorem mystery_lines_same_increment:
  assumes "length x = length theta" and "length y = length theta"
  shows "\<exists>x' y'. mystery_lines x y theta spiral_rate frequency = Inr (x', y')
           \<and> length x' = length theta \<and> length y' = length theta
           \<and> (\<forall>i < length theta.
                 x' ! i = x ! i + (spiral_rate + spiral_rate * sin (frequency * theta ! i)) * sin (theta ! i)
               \<and> y' ! i = y ! i + (spiral_rate + spiral_rate * sin (frequency * theta ! i)) * sin (theta ! i)
               \<and> x' ! i - x ! i = y' ! i - y ! i)"
  using assms
  by (simp add: mystery_lines_def mystery_r_def scalar_mul_def scalar_add_def np_sin_def
      arr_mul_same arr_add_same Let_def)

theorem mystery_lines_same_increment_witness:
  "\<exists>x' y'. mystery_lines [1, 2] [3, 4] [0, pi / 2] 2 1 = Inr (x', y')
     \<and> length x' = 2 \<and> length y' = 2
     \<and> x' ! 0 - 1 = y' ! 0 - 3 \<and> x' ! 1 - 2 = y' ! 1 - 4"
  using mystery_lines_same_increment [of "[1, 2]" "[0, pi / 2]" "[3, 4]" 2 1]
  by (auto simp: less_Suc_eq)

subsection \<open>Rotating the paper\<close>

lemma last_nth_len: "length xs = length ys \<Longrightarrow> ys \<noteq> [] \<Longrightarrow> last xs = xs ! (length ys - 1)"
  by (metis last_conv_nth length_0_conv)

lemma rotate_by_same:
  assumes "length x = length phi" and "length y = length phi"
  shows "rotate_by x y phi =
     Inr (map2 (-) (map2 (*) x (map cos phi)) (map2 (*) y (map sin phi)),
          map2 (+) (map2 (*) x (map sin phi)) (map2 (*) y (map cos phi)))"
  using assms
  by (simp add: rotate_by_def np_cos_def np_sin_def arr_mul_same arr_sub_same arr_add_same)

lemma rotate_by_nth:
  assumes "length x = length phi" and "length y = length phi"
  shows "\<exists>x' y'. rotate_by x y phi = Inr (x', y')
           \<and> length x' = length phi \<and> length y' = length phi
           \<and> (\<forall>i < length phi.
                 x' ! i = x ! i * cos (phi ! i) - y ! i * sin (phi ! i)
               \<and> y' ! i = x ! i * sin (phi ! i) + y ! i * cos (phi ! i))"
  using assms by (simp add: rotate_by_same)

lemma paper_rotation_nth:
  assumes "length x = length theta" and "length y = length theta" and "theta \<noteq> []"
  shows "\<exists>x' y'. paper_rotation x y theta degrees = Inr (x', y')
           \<and> length x' = length theta \<and> length y' = length theta
           \<and> (\<forall>i < length theta.
                 x' ! i = x ! i * cos (deg2rad degrees * (theta ! i / last theta))
                         - y ! i * sin (deg2rad degrees * (theta ! i / last theta))
               \<and> y' ! i = x ! i * sin (deg2rad degrees * (theta ! i / last theta))
                         + y ! i * cos (deg2rad degrees * (theta ! i / last theta)))"
  using assms
  by (simp add: paper_rotation_def last_item_def rotate_by_same scalar_mul_def div_scalar_def Let_def)

text \<open>
  Claim C2 says that \<open>paper_rotation\<close> with \<open>degrees = 360\<close> over a full sweep returns the
  unrotated input. It does not: the sample at index \<open>i\<close> is rotated by the fraction
  \<open>theta[i] / theta[-1]\<close> of the full turn, so half-way through the sweep the point
  \<open>(1, 0)\<close> has become \<open>(-1, 0)\<close>.
\<close>

theorem paper_rotation_360_counterexample:
  "paper_rotation [1, 1, 1] [0, 0, 0] [0, pi, 2 * pi] 360 = Inr ([1, - 1, 1], [0, 0, 0])
 \<and> paper_rotation [1, 1, 1] [0, 0, 0] [0, pi, 2 * pi] 360 \<noteq> Inr ([1, 1, 1], [0, 0, 0])"
  by (simp add: paper_rotation_def last_item_def rotate_by_same scalar_mul_def div_scalar_def
      deg2rad_def Let_def)

text \<open>
  Claim C2, amended. For equal-length \<open>x\<close>, \<open>y\<close>, \<open>theta\<close> with a nonzero last angle,
  \<open>paper_rotation\<close> with \<open>degrees = 360\<close> rotates the sample at index \<open>i\<close> by the angle
  \<open>2 * pi * theta[i] / theta[-1]\<close>. The output equals the input at every index where
  \<open>theta[i]\<close> is a whole multiple of \<open>theta[-1]\<close>: at the start of a sweep from 0 and at
  its last index, where a full turn has been made.
\<close>

theorem paper_rotation_360:
  assumes "length x = length theta" and "length y = length theta"
    and "theta \<noteq> []" and "last theta \<noteq> 0"
  shows "\<exists>x' y'. paper_rotation x y theta 360 = Inr (x', y')
           \<and> length x' = length theta \<and> length y' = length theta
           \<and> (\<forall>i < length theta.
                 x' ! i = x ! i * cos (2 * pi * (theta ! i / last theta))
                         - y ! i * sin (2 * pi * (theta ! i / last theta))
               \<and> y' ! i = x ! i * sin (2 * pi * (theta ! i / last theta))
                         + y ! i * cos (2 * pi * (theta ! i / last theta)))
           \<and> (\<forall>i < length theta. \<forall>k :: int.
                 theta ! i = of_int k * last theta \<longrightarrow> x' ! i = x ! i \<and> y' ! i = y ! i)
           \<and> last x' = last x \<and> last y' = last y"
proof -
  have d: "deg2rad 360 = 2 * pi" by (simp add: deg2rad_def)
  obtain x' y' where r: "paper_rotation x y theta 360 = Inr (x', y')"
    and lx: "length x' = length theta" and ly: "length y' = length theta"
    and nth: "\<forall>i < length theta.
                 x' ! i = x ! i * cos (2 * pi * (theta ! i / last theta))
                         - y ! i * sin (2 * pi * (theta ! i / last theta))
               \<and> y' ! i = x ! i * sin (2 * pi * (theta ! i / last theta))
                         + y ! i * cos (2 * pi * (theta ! i / last theta))"
    using paper_rotation_nth [OF assms(1-3), of 360] unfolding d by blast
  have full: "x' ! i = x ! i \<and> y' ! i = y ! i"
    if "i < length theta" and "theta ! i = of_int k * last theta" for i and k :: int
  proof -
    have "theta ! i / last theta = of_int k" using that assms(4) by simp
    then have "2 * pi * (theta ! i / last theta) = 2 * pi * of_int k" by simp
    moreover have "cos (2 * pi * of_int k) = 1" "sin (2 * pi * of_int k) = 0"
      using cos_int_2pin [of k] sin_int_2pin [of k] by simp_all
    ultimately show ?thesis using nth that(1) by simp
  qed
  have n: "length theta - 1 < length theta" using assms(3) by (cases theta) simp_all
  have "theta ! (length theta - 1) = of_int 1 * last theta"
    using assms(3) by (simp add: last_conv_nth)
  from full [OF n this]
  have "last x' = last x \<and> last y' = last y"
    using assms(1-3) lx ly by (simp add: last_nth_len [of _ theta])
  with r lx ly nth full show ?thesis by blast
qed

theorem paper_rotation_360_witness:
  "\<exists>x' y'. paper_rotation [1, 1, 1] [0, 0, 0] [0, pi, 2 * pi] 360 = Inr (x', y')
     \<and> x' ! 0 = 1 \<and> y' ! 0 = 0 \<and> last x' = 1 \<and> last y' = 0"
proof -
  obtain x' y' where r: "paper_rotation [1, 1, 1] [0, 0, 0] [0, pi, 2 * pi] 360 = Inr (x', y')"
    and k: "\<forall>i < length [0, pi, 2 * pi]. \<forall>k :: int.
               [0, pi, 2 * pi] ! i = of_int k * last [0, pi, 2 * pi]
               \<longrightarrow> x' ! i = [1, 1, 1 :: real] ! i \<and> y' ! i = [0, 0, 0 :: real] ! i"
    and l: "last x' = last [1, 1, 1 :: real]" "last y' = last [0, 0, 0 :: real]"
    using paper_rotation_360 [of "[1, 1, 1]" "[0, pi, 2 * pi]" "[0, 0, 0]"] by auto
  from k have "x' ! 0 = 1 \<and> y' ! 0 = 0"
    by (auto dest!: spec [of _ 0] spec [of _ "0 :: int"])
  with r l show ?thesis by simp
qed

lemma rotation_polynomial:
  "(a * c - b * s)\<^sup>2 + (a * s + b * c)\<^sup>2 = (a\<^sup>2 + b\<^sup>2) * (s\<^sup>2 + (c :: real)\<^sup>2)"
  by (simp add: power2_eq_square algebra_simps)

lemma rotation_radius:
  "(a * cos p - b * sin p)\<^sup>2 + (a * sin p + b * cos p)\<^sup>2 = a\<^sup>2 + (b :: real)\<^sup>2"
  by (simp only: rotation_polynomial sin_cos_squared_add mult_1_right)

lemma rotate_by_radius:
  assumes "length x = length phi" and "length y = length phi"
  shows "\<exists>x' y'. rotate_by x y phi = Inr (x', y')
           \<and> (\<forall>i < length phi. (x' ! i)\<^sup>2 + (y' ! i)\<^sup>2 = (x ! i)\<^sup>2 + (y ! i)\<^sup>2)"
  using assms by (simp add: rotate_by_same rotation_radius)

lemma rotation_phi_named:
  assumes "name = ''linear'' \<or> name = ''quadratic'' \<or> name = ''sinusoidal''"
  shows "\<exists>phi. rotation_phi (RateName name) ps tot = Inr phi \<and> length phi = length ps"
  using assms by (auto simp: rotation_phi_def)

text \<open>
  Claim C10. \<open>paper_rotation\<close>, and \<open>paper_rotation_transform_non_linear\<close> with one of the
  rate names \<open>linear\<close>, \<open>quadratic\<close>, \<open>sinusoidal\<close>, keep every sample at its distance from
  the origin: \<open>x'[i]\<^sup>2 + y'[i]\<^sup>2 = x[i]\<^sup>2 + y[i]\<^sup>2\<close> for equal-length inputs with a nonzero
  last angle.
\<close>

theorem rotations_preserve_radius:
  assumes "length x = length theta" and "length y = length theta"
    and "theta \<noteq> []" and "last theta \<noteq> 0"
  shows "(\<exists>x' y'. paper_rotation x y theta degrees = Inr (x', y')
            \<and> (\<forall>i < length theta. (x' ! i)\<^sup>2 + (y' ! i)\<^sup>2 = (x ! i)\<^sup>2 + (y ! i)\<^sup>2))
       \<and> (name = ''linear'' \<or> name = ''quadratic'' \<or> name = ''sinusoidal'' \<longrightarrow>
           (\<exists>x' y'. paper_rotation_transform_non_linear x y theta degrees (RateName name) = Inr (x', y')
              \<and> (\<forall>i < length theta. (x' ! i)\<^sup>2 + (y' ! i)\<^sup>2 = (x ! i)\<^sup>2 + (y ! i)\<^sup>2)))"
proof (intro conjI impI)
  show "\<exists>x' y'. paper_rotation x y theta degrees = Inr (x', y')
            \<and> (\<forall>i < length theta. (x' ! i)\<^sup>2 + (y' ! i)\<^sup>2 = (x ! i)\<^sup>2 + (y ! i)\<^sup>2)"
    using rotate_by_radius [of x "scalar_mul (deg2rad degrees) (div_scalar theta (last theta))" y] assms
    by (simp add: paper_rotation_def last_item_def Let_def)
next
  assume "name = ''linear'' \<or> name = ''quadratic'' \<or> name = ''sinusoidal''"
  then obtain phi where p: "rotation_phi (RateName name) (div_scalar theta (last theta)) (deg2rad degrees) = Inr phi"
    and l: "length phi = length theta"
    using rotation_phi_named [of name "div_scalar theta (last theta)" "deg2rad degrees"] by auto
  show "\<exists>x' y'. paper_rotation_transform_non_linear x y theta degrees (RateName name) = Inr (x', y')
              \<and> (\<forall>i < length theta. (x' ! i)\<^sup>2 + (y' ! i)\<^sup>2 = (x ! i)\<^sup>2 + (y ! i)\<^sup>2)"
    using rotate_by_radius [of x phi y] assms p l
    by (simp add: paper_rotation_transform_non_linear_def last_item_def Let_def)
qed

theorem rotations_preserve_radius_witness:
  "(\<exists>x' y'. paper_rotation [3] [4] [2] 90 = Inr (x', y') \<and> (x' ! 0)\<^sup>2 + (y' ! 0)\<^sup>2 = 25)
 \<and> (\<exists>x' y'. paper_rotation_transform_non_linear [3] [4] [2] 90 (RateName ''quadratic'') = Inr (x', y')
        \<and> (x' ! 0)\<^sup>2 + (y' ! 0)\<^sup>2 = 25)"
  using rotations_preserve_radius
    [where x = "[3]" and y = "[4]" and theta = "[2]" and name = "''quadratic''" and degrees = 90]
  by simp

subsection \<open>Spirograph modes\<close>

text \<open>
  Where the three spirograph transforms reject an unrecognized mode with \<open>ValueError\<close>:
  \<open>spirograph_transform\<close> and \<open>elliptical_spirograph_transform\<close> for all arguments, since
  they test the mode before any arithmetic, and \<open>polygon_spirograph_transform\<close> for a
  side count other than zero.
\<close>

lemma invalid_mode_value_error:
  "(mode \<noteq> ''hypotrochoid'' \<and> mode \<noteq> ''epitrochoid'' \<longrightarrow>
      spirograph_transform x y theta R r d mode = Inl trochoid_mode_error
    \<and> elliptical_spirograph_transform x y theta R r d a b mode = Inl trochoid_mode_error)
 \<and> (mode \<noteq> ''hypocyclogon'' \<and> mode \<noteq> ''epicyclogon'' \<and> n \<noteq> 0 \<longrightarrow>
      polygon_spirograph_transform x y theta R n d mode = Inl cyclogon_mode_error)"
  by (simp add: spirograph_transform_def elliptical_spirograph_transform_def
      polygon_spirograph_transform_def py_div_def)

text \<open>
  Claim C4. Every mode string that a spirograph transform does not recognize makes the
  call raise \<open>ValueError\<close> and return no output. The code breaks this in
  \<open>polygon_spirograph_transform\<close>: its \<open>else\<close> branch raises the \<open>ValueError\<close>, but the
  statement before the test already uses the mode to compute \<open>r\<close> and divides \<open>np.pi\<close> by
  \<open>n\<close>. With \<open>n = 0\<close> and the mode \<open>bogus\<close> the call raises \<open>ZeroDivisionError\<close> and the mode
  is never reported, where the two sibling transforms, given a zero radius and the same
  mode, raise the \<open>ValueError\<close>.
\<close>

theorem polygon_mode_checked_late:
  "polygon_spirograph_transform [0] [0] [0] 1 0 1 ''bogus'' = Inl ZeroDivisionError
 \<and> polygon_spirograph_transform [0] [0] [0] 1 0 1 ''bogus'' \<noteq> Inl cyclogon_mode_error
 \<and> spirograph_transform [0] [0] [0] 1 0 1 ''bogus'' = Inl trochoid_mode_error
 \<and> elliptical_spirograph_transform [0] [0] [0] 1 0 1 1 1 ''bogus'' = Inl trochoid_mode_error"
  by (simp add: polygon_spirograph_transform_def spirograph_transform_def
      elliptical_spirograph_transform_def py_div_def cyclogon_mode_error_def)

subsection \<open>Tracing a path\<close>

text \<open>
  Claim C8. The result of \<open>svg_path_transform\<close> does not depend on the incoming
  coordinates: two calls with the same theta, path, scale and offsets return the same
  result, whatever \<open>x\<close> and \<open>y\<close> each was given.
\<close>

theorem svg_path_ignores_coordinates:
  "svg_path_transform x1 y1 theta path scale offset_x offset_y
     = svg_path_transform x2 y2 theta path scale offset_x offset_y"
  by (simp add: svg_path_transform_def)

subsection \<open>The angle sequence\<close>

lemma linspace_nth:
  assumes "1 < num"
  shows "\<exists>ys. linspace start stop num = Inr ys \<and> length ys = nat num
           \<and> (\<forall>i < nat num. ys ! i = start + of_nat i * ((stop - start) / of_int (num - 1)))"
proof -
  let ?step = "(stop - start) / of_int (num - 1)"
  let ?y = "map (\<lambda>i. start + of_nat i * ?step) [0..<nat num]"
  have r: "linspace start stop num = Inr (?y[nat num - 1 := stop])"
    using assms by (simp add: linspace_def Let_def)
  have e: "start + of_nat (nat num - 1) * ?step = stop"
  proof -
    have "of_nat (nat num - 1) = (of_int (num - 1) :: real)"
      using assms by simp
    moreover have "(of_int (num - 1) :: real) \<noteq> 0" using assms by simp
    ultimately show ?thesis by simp
  qed
  have "(?y[nat num - 1 := stop]) ! i = start + of_nat i * ?step" if "i < nat num" for i
    using that e by (cases "i = nat num - 1") simp_all
  with r show ?thesis by simp
qed

lemma theta_sequence_nth:
  "\<exists>theta. theta_sequence rotations = Inr theta \<and> length theta = 50000
     \<and> (\<forall>i < 50000. theta ! i = of_nat i * (2 * pi * rotations / 49999))"
  using linspace_nth [of resolution 0 "2 * pi * rotations"]
  by (simp add: theta_sequence_def resolution_def)

text \<open>
  Claim C6. For every positive rotation count the angle sequence has exactly 50000
  elements, is strictly increasing and evenly spaced, starts at 0, and its last element
  is \<open>2 * pi * rotations\<close>.
\<close>

theorem theta_sequence_invariant:
  assumes "0 < rotations"
  shows "\<exists>theta. theta_sequence rotations = Inr theta
           \<and> length theta = 50000
           \<and> sorted_wrt (<) theta
           \<and> (\<forall>i. Suc i < 50000 \<longrightarrow> theta ! Suc i - theta ! i = 2 * pi * rotations / 49999)
           \<and> hd theta = 0
           \<and> last theta = 2 * pi * rotations"
proof -
  let ?step = "2 * pi * rotations / 49999"
  obtain theta where r: "theta_sequence rotations = Inr theta" and l: "length theta = 50000"
    and n: "\<forall>i < 50000. theta ! i = of_nat i * ?step"
    using theta_sequence_nth by blast
  have pos: "0 < ?step" using assms by simp
  have "sorted_wrt (<) theta"
    unfolding sorted_wrt_iff_nth_less
  proof (intro allI impI)
    fix i j assume "i < j" "j < length theta"
    then have "theta ! i = of_nat i * ?step" "theta ! j = of_nat j * ?step"
      using n l by simp_all
    moreover have "real i * ?step < real j * ?step"
      using \<open>i < j\<close> pos by (intro mult_strict_right_mono) simp_all
    ultimately show "theta ! i < theta ! j" by (simp only:)
  qed
  moreover have "theta ! Suc i - theta ! i = ?step" if "Suc i < 50000" for i
  proof -
    have "theta ! Suc i = of_nat (Suc i) * ?step" "theta ! i = of_nat i * ?step"
      using n that by simp_all
    then show ?thesis by (simp add: algebra_simps)
  qed
  moreover have "hd theta = 0"
  proof -
    have "theta \<noteq> []" using l by auto
    then have "hd theta = theta ! 0" by (simp add: hd_conv_nth)
    then show ?thesis using n by simp
  qed
  moreover have "last theta = 2 * pi * rotations"
  proof -
    have "theta \<noteq> []" using l by auto
    then have "last theta = theta ! 49999" using l by (simp add: last_conv_nth)
    then show ?thesis using n by simp
  qed
  ultimately show ?thesis using r l by blast
qed

theorem theta_sequence_invariant_witness:
  "\<exists>theta. theta_sequence 1 = Inr theta \<and> length theta = 50000 \<and> sorted_wrt (<) theta
     \<and> hd theta = 0 \<and> last theta = 2 * pi"
  using theta_sequence_invariant [of 1] by auto

lemma theta_sequence_zero: "theta_sequence 0 = Inr (replicate 50000 0)"
proof -
  obtain theta where r: "theta_sequence 0 = Inr theta" and l: "length theta = 50000"
    and n: "\<forall>i < 50000. theta ! i = of_nat i * (2 * pi * 0 / 49999)"
    using theta_sequence_nth [of 0] by blast
  have "theta = replicate 50000 0"
    using l n by (intro nth_equalityI) simp_all
  with r show ?thesis by simp
qed

text \<open>
  Claim C1 says that a rotation count \<open>rotations \<le> 0\<close> makes the generation of the angle
  sequence, and with it the assembly of the pattern, fail with an invalid-input error.
  \<open>draw_pattern\<close> passes the count to \<open>np.linspace\<close> unchecked: with \<open>rotations = 0\<close> the
  sequence is 50000 zeros, and a pattern made of one \<open>circular_motion\<close> is drawn as
  50000 copies of the point \<open>(1, 0)\<close>.
\<close>

theorem no_rotation_check_counterexample:
  "theta_sequence 0 = Inr (replicate 50000 0)
 \<and> draw_pattern_points [transform (CircularMotion 1 1)] 0 Map.empty
     = Inr (replicate 50000 1, replicate 50000 0)"
proof -
  have c: "circular_motion (replicate 50000 0) (replicate 50000 0) (replicate 50000 0) 1 1
             = Inr (replicate 50000 1, replicate 50000 0)"
    by (simp add: circular_motion_def scalar_mul_def np_cos_def np_sin_def arr_add_same)
  have p: "translate_scale_rotate_transform (replicate 50000 1) (replicate 50000 0)
             (replicate 50000 0) 0 0 1 1 0 = Inr (replicate 50000 1, replicate 50000 0)"
    by (simp add: translate_scale_rotate_transform_def deg2rad_def scalar_mul_def scalar_add_def
        arr_sub_same arr_add_same)
  show ?thesis
    by (simp add: draw_pattern_points_def theta_sequence_zero dict_get_def zeros_like_def
        apply_transforms_def c p)
qed

text \<open>
  Claim C1, amended. The generation of the angle sequence has no failure mode at all:
  for every rotation count, positive, zero or negative, it returns 50000 angles from 0
  to \<open>2 * pi * rotations\<close>. The count is not validated.
\<close>

theorem theta_sequence_total:
  "\<exists>theta. theta_sequence rotations = Inr theta \<and> length theta = 50000
     \<and> hd theta = 0 \<and> last theta = 2 * pi * rotations"
proof -
  obtain theta where r: "theta_sequence rotations = Inr theta" and l: "length theta = 50000"
    and n: "\<forall>i < 50000. theta ! i = of_nat i * (2 * pi * rotations / 49999)"
    using theta_sequence_nth by blast
  have ne: "theta \<noteq> []" using l by auto
  have "hd theta = theta ! 0" using ne by (simp add: hd_conv_nth)
  then have "hd theta = 0" using n by simp
  moreover have "last theta = theta ! 49999" using ne l by (simp add: last_conv_nth)
  then have "last theta = 2 * pi * rotations" using n by simp
  ultimately show ?thesis using r l by blast
qed

subsection \<open>Closed trochoids\<close>

lemma spirograph_hypotrochoid_nth:
  assumes "length x = length theta" and "length y = length theta" and "r \<noteq> 0"
  shows "\<exists>x' y'. spirograph_transform x y theta R r d ''hypotrochoid'' = Inr (x', y')
           \<and> length x' = length theta \<and> length y' = length theta
           \<and> (\<forall>i < length theta.
                 x' ! i = x ! i + (R - r) * cos (theta ! i) + d * cos ((R - r) / r * theta ! i)
               \<and> y' ! i = y ! i + (R - r) * sin (theta ! i) - d * sin ((R - r) / r * theta ! i))"
  using assms
  by (simp add: spirograph_transform_def py_div_def scalar_mul_def np_cos_def np_sin_def
      arr_add_same arr_sub_same)

text \<open>
  Claim C7. In mode \<open>hypotrochoid\<close> with \<open>R = 5\<close>, \<open>r = 1\<close>, \<open>d = 2\<close>, for a theta that starts
  at 0 and ends at \<open>10 * pi\<close> and incoming coordinates that agree at the first and the last
  index, the first and the last point of the output are equal: the curve closes.
\<close>

theorem hypotrochoid_closes:
  assumes "length x = length theta" and "length y = length theta" and "theta \<noteq> []"
    and "hd theta = 0" and "last theta = 10 * pi"
    and "hd x = last x" and "hd y = last y"
  shows "\<exists>x' y'. spirograph_transform x y theta 5 1 2 ''hypotrochoid'' = Inr (x', y')
           \<and> hd x' = last x' \<and> hd y' = last y'"
proof -
  obtain x' y' where r: "spirograph_transform x y theta 5 1 2 ''hypotrochoid'' = Inr (x', y')"
    and lx: "length x' = length theta" and ly: "length y' = length theta"
    and n: "\<forall>i < length theta.
                 x' ! i = x ! i + (5 - 1) * cos (theta ! i) + 2 * cos ((5 - 1) / 1 * theta ! i)
               \<and> y' ! i = y ! i + (5 - 1) * sin (theta ! i) - 2 * sin ((5 - 1) / 1 * theta ! i)"
    using spirograph_hypotrochoid_nth [OF assms(1,2), of 1 5 2] by auto
  let ?m = "length theta - 1"
  have m: "?m < length theta" and z: "0 < length theta" using assms(3) by simp_all
  have ne: "x \<noteq> []" "y \<noteq> []" "x' \<noteq> []" "y' \<noteq> []"
    using assms(1-3) lx ly by auto
  have t0: "theta ! 0 = 0" using assms(3,4) by (simp add: hd_conv_nth)
  have tm: "theta ! ?m = 10 * pi" using assms(3,5) by (simp add: last_conv_nth)
  have c1: "cos (10 * pi) = 1" and s1: "sin (10 * pi) = 0"
    using cos_int_2pin [of 5] sin_int_2pin [of 5] by simp_all
  have c4: "cos (4 * (10 * pi)) = 1" and s4: "sin (4 * (10 * pi)) = 0"
    using cos_int_2pin [of 20] sin_int_2pin [of 20] by simp_all
  have first: "x' ! 0 = x ! 0 + 6" "y' ! 0 = y ! 0"
    using n z t0 by simp_all
  have final: "x' ! ?m = x ! ?m + 6" "y' ! ?m = y ! ?m"
    using n m tm c1 s1 c4 s4 by simp_all
  have "x ! 0 = x ! ?m" "y ! 0 = y ! ?m"
    using assms(1,2,6,7) ne by (simp_all add: hd_conv_nth last_conv_nth)
  then have "x' ! 0 = x' ! ?m" "y' ! 0 = y' ! ?m"
    using first final by simp_all
  then have "hd x' = last x'" "hd y' = last y'"
    using ne lx ly by (simp_all add: hd_conv_nth last_conv_nth)
  with r show ?thesis by blast
qed

theorem hypotrochoid_closes_witness:
  "\<exists>x' y'. spirograph_transform [0, 0, 0] [0, 0, 0] [0, 5 * pi, 10 * pi] 5 1 2 ''hypotrochoid''
              = Inr (x', y')
     \<and> hd x' = last x' \<and> hd y' = last y'"
  using hypotrochoid_closes [of "[0, 0, 0]" "[0, 5 * pi, 10 * pi]" "[0, 0, 0]"] by simp

subsection \<open>Sequence lengths\<close>

text \<open>
  Each transform that returns, returns two arrays of the common length of its three
  inputs. The transforms built from array operators first.
\<close>

lemma length_broadcast2:
  assumes "broadcast2 f xs ys = Inr zs" and "length xs = n" and "length ys = n"
  shows "length zs = n"
  using assms by (auto simp: broadcast2_def)

lemma circular_motion_length:
  assumes "circular_motion x y theta radius speed = Inr (x', y')"
    and "length x = n" and "length y = n" and "length theta = n"
  shows "length x' = n \<and> length y' = n"
  using assms by (auto simp: circular_motion_def arr_add_same)

lemma translate_scale_rotate_length:
  assumes "translate_scale_rotate_transform x y theta xo yo sx sy ra = Inr (x', y')"
    and "length x = n" and "length y = n" and "length theta = n"
  shows "length x' = n \<and> length y' = n"
  using assms by (auto simp: translate_scale_rotate_transform_def arr_add_same arr_sub_same Let_def)

lemma rotate_by_length:
  assumes "rotate_by x y phi = Inr (x', y')"
    and "length x = n" and "length y = n" and "length phi = n"
  shows "length x' = n \<and> length y' = n"
  using assms by (auto simp: rotate_by_same)

lemma paper_rotation_length:
  assumes "paper_rotation x y theta degrees = Inr (x', y')"
    and "length x = n" and "length y = n" and "length theta = n"
  shows "length x' = n \<and> length y' = n"
  using assms
  by (auto simp: paper_rotation_def last_item_def Let_def rotate_by_same split: if_splits)

lemma mystery_lines_length:
  assumes "mystery_lines x y theta spiral_rate frequency = Inr (x', y')"
    and "length x = n" and "length y = n" and "length theta = n"
  shows "length x' = n \<and> length y' = n"
  using assms
  by (auto simp: mystery_lines_def mystery_r_def Let_def arr_add_same arr_mul_same)

lemma linear_translation_length:
  assumes "linear_translation_transform x y theta total_distance deg = Inr (x', y')"
    and "length x = n" and "length y = n" and "length theta = n"
  shows "length x' = n \<and> length y' = n"
  using assms
  by (auto simp: linear_translation_transform_def last_item_def Let_def arr_add_same split: if_splits)

lemma rotation_phi_length:
  assumes "rotation_phi rf ps tot = Inr phi"
    and "\<And>f. rf = RateCallable f \<Longrightarrow> length (f ps) = length ps"
  shows "length phi = length ps"
  using assms by (cases rf) (auto simp: rotation_phi_def Let_def split: if_splits)

lemma paper_rotation_non_linear_length:
  assumes "paper_rotation_transform_non_linear x y theta degrees rf = Inr (x', y')"
    and "length x = n" and "length y = n" and "length theta = n"
    and "\<And>f p. rf = RateCallable f \<Longrightarrow> length p = n \<Longrightarrow> length (f p) = n"
  shows "length x' = n \<and> length y' = n"
proof (cases "theta = []")
  case True
  then show ?thesis
    using assms(1) by (simp add: paper_rotation_transform_non_linear_def last_item_def)
next
  case False
  let ?ps = "div_scalar theta (last theta)"
  from False assms(1)
  have "bindE (rotation_phi rf ?ps (deg2rad degrees)) (rotate_by x y) = Inr (x', y')"
    by (simp add: paper_rotation_transform_non_linear_def last_item_def Let_def)
  then obtain phi where p: "rotation_phi rf ?ps (deg2rad degrees) = Inr phi"
    and r: "rotate_by x y phi = Inr (x', y')"
    unfolding bindE_eq_Inr by blast
  have "length phi = length ?ps"
    using p
  proof (rule rotation_phi_length)
    fix f assume "rf = RateCallable f"
    then show "length (f ?ps) = length ?ps" using assms(4,5) by simp
  qed
  then have "length phi = n" using assms(4) by simp
  with r assms(2,3) show ?thesis by (intro rotate_by_length)
qed

lemma svg_path_length:
  assumes "svg_path_transform x y theta path scale ox oy = Inr (x', y')"
  shows "length x' = length theta \<and> length y' = length theta"
  using assms
  by (auto simp: svg_path_transform_def last_item_def Let_def bindE_eq_Inr np_interp_def
      split: if_splits)

lemma spiral_length:
  assumes "spiral_transform x y theta spiral_rate a b = Inr (x', y')"
    and "length x = n" and "length y = n" and "length theta = n"
  shows "length x' = n \<and> length y' = n"
  using assms
  by (auto simp: spiral_transform_def Let_def arr_add_same arr_mul_same)

lemma spiral_oscillator_length:
  assumes "spiral_oscillator x y theta spiral_rate frequency const a b = Inr (x', y')"
    and "length x = n" and "length y = n" and "length theta = n"
  shows "length x' = n \<and> length y' = n"
  using assms
  by (auto simp: spiral_oscillator_def Let_def arr_add_same arr_mul_same)

lemma variable_r_same:
  "variable_r start_rate end_rate theta theta_max =
     Inr (map2 (+) (scalar_mul start_rate theta)
            (scalar_mul ((end_rate - start_rate) / (2 * theta_max)) (map (\<lambda>v. v ^ 2) theta)))"
  by (simp add: variable_r_def Let_def arr_add_same)

lemma variable_spiral_length:
  assumes "variable_spiral_transform x y theta start_rate end_rate a b = Inr (x', y')"
    and "length x = n" and "length y = n" and "length theta = n"
  shows "length x' = n \<and> length y' = n"
  using assms
  by (auto simp: variable_spiral_transform_def last_item_def variable_r_same arr_add_same
      arr_mul_same split: if_splits)

lemma elliptical_spirograph_length:
  assumes "elliptical_spirograph_transform x y theta R r d a b mode = Inr (x', y')"
    and "length x = n" and "length y = n" and "length theta = n"
  shows "length x' = n \<and> length y' = n"
  using assms
  by (auto simp: elliptical_spirograph_transform_def py_div_def arr_add_same arr_sub_same
      split: if_splits)

lemma spirograph_length:
  assumes "spirograph_transform x y theta R r d mode = Inr (x', y')"
    and "length x = n" and "length y = n" and "length theta = n"
  shows "length x' = n \<and> length y' = n"
  using assms
  by (auto simp: spirograph_transform_def py_div_def arr_add_same arr_sub_same
      split: if_splits)

lemma polygon_spirograph_length:
  assumes "polygon_spirograph_transform x y theta R n' d mode = Inr (x', y')"
    and "length x = n" and "length y = n" and "length theta = n"
  shows "length x' = n \<and> length y' = n"
  using assms
  by (auto simp: polygon_spirograph_transform_def py_div_def Let_def arr_add_same arr_sub_same
      split: if_splits)

text \<open>The transforms that fill their result in a loop.\<close>

lemma setitem_eq_Inr: "setitem xs i v = Inr ys \<longleftrightarrow> i < length xs \<and> ys = xs[i := v]"
  by (auto simp: setitem_def)

lemma getitem_eq_Inr: "getitem xs i = Inr v \<longleftrightarrow> i < length xs \<and> v = xs ! i"
  by (auto simp: getitem_def)

lemma for_each_invariant:
  assumes "for_each body js s = Inr s'" and "P s"
    and "\<And>j s s'. P s \<Longrightarrow> body j s = Inr s' \<Longrightarrow> P s'"
  shows "P s'"
  using assms(1,2)
proof (induction js arbitrary: s)
  case Nil
  then show ?case by simp
next
  case (Cons j js)
  from Cons.prems(1) obtain s1 where b: "body j s = Inr s1" and f: "for_each body js s1 = Inr s'"
    by (auto simp: bindE_eq_Inr)
  from assms(3) [OF Cons.prems(2) b] have "P s1" .
  with f show ?case by (rule Cons.IH)
qed

lemma store_scaled_length:
  assumes "store_scaled r i p s = Inr s'"
  shows "length (fst s') = length (fst s) \<and> length (snd s') = length (snd s)"
  using assms
  by (cases s) (auto simp: store_scaled_def bindE_eq_Inr setitem_eq_Inr getitem_eq_Inr)

lemma rectangle_body_length:
  assumes "rectangle_body w h g d ia s = Inr s'"
  shows "length (fst s') = length (fst s) \<and> length (snd s') = length (snd s)"
  using assms
  by (cases s; cases ia)
     (auto simp: rectangle_body_def Let_def bindE_eq_Inr setitem_eq_Inr getitem_eq_Inr)

lemma ngon_body_length:
  assumes "ngon_body n vertices r ia s = Inr s'"
  shows "length (fst s') = length (fst s) \<and> length (snd s') = length (snd s)"
  using assms
  by (cases ia) (auto simp: ngon_body_def Let_def bindE_eq_Inr dest: store_scaled_length)

lemma triangle_body_length:
  assumes "triangle_body v1 v2 v3 r ia s = Inr s'"
  shows "length (fst s') = length (fst s) \<and> length (snd s') = length (snd s)"
  using assms by (cases ia) (auto simp: triangle_body_def dest: store_scaled_length)

lemma loop_lengths:
  assumes "for_each body js (xt, yt) = Inr (x', y')"
    and "\<And>j s s'. body j s = Inr s' \<Longrightarrow>
           length (fst s') = length (fst s) \<and> length (snd s') = length (snd s)"
  shows "length x' = length xt \<and> length y' = length yt"
proof -
  have "length (fst (x', y')) = length xt \<and> length (snd (x', y')) = length yt"
    using assms(1)
  proof (rule for_each_invariant [where P = "\<lambda>s. length (fst s) = length xt \<and> length (snd s) = length yt"])
    show "length (fst (xt, yt)) = length xt \<and> length (snd (xt, yt)) = length yt" by simp
  next
    fix j s s'
    assume "length (fst s) = length xt \<and> length (snd s) = length yt" and "body j s = Inr s'"
    then show "length (fst s') = length xt \<and> length (snd s') = length yt"
      using assms(2) [of j s s'] by simp
  qed
  then show ?thesis by simp
qed

lemma spirograph_rectangle_length:
  assumes "spirograph_rectangle_transform x y theta w h g d = Inr (x', y')"
    and "length x = n" and "length y = n"
  shows "length x' = n \<and> length y' = n"
  using loop_lengths [OF assms(1) [unfolded spirograph_rectangle_transform_def] rectangle_body_length]
    assms(2,3) by simp

lemma variable_spiral_triangle_length:
  assumes "variable_spiral_triangle_transform x y theta start_rate end_rate side1 side2 side3
             = Inr (x', y')"
    and "length x = n" and "length y = n"
  shows "length x' = n \<and> length y' = n"
proof -
  from assms(1) obtain v1 v2 v3 r where
    "for_each (triangle_body v1 v2 v3 r) (enumerate_arr theta) (zeros_like x, zeros_like y)
       = Inr (x', y')"
    unfolding variable_spiral_triangle_transform_def Let_def bindE_eq_Inr by blast
  from loop_lengths [OF this triangle_body_length] assms(2,3) show ?thesis by simp
qed

lemma variable_spiral_regular_ngon_length:
  assumes "variable_spiral_regular_ngon_transform x y theta start_rate end_rate side_lengths
             = Inr (x', y')"
    and "length x = n" and "length y = n"
  shows "length x' = n \<and> length y' = n"
proof -
  from assms(1) obtain m vs r where
    "for_each (ngon_body m vs r) (enumerate_arr theta) (zeros_like x, zeros_like y)
       = Inr (x', y')"
    unfolding variable_spiral_regular_ngon_transform_def Let_def bindE_eq_Inr by blast
  from loop_lengths [OF this ngon_body_length] assms(2,3) show ?thesis by simp
qed

text \<open>All the library's transforms, through the dispatcher.\<close>

lemma transform_length:
  assumes "length x = N" and "length y = N" and "length theta = N" and "1 \<le> N"
    and "callable_keeps_shape t N"
    and "transform t x y theta = Inr (x', y')"
  shows "length x' = N \<and> length y' = N"
proof (cases t)
  case (CircularMotion radius speed)
  with assms show ?thesis by (auto dest: circular_motion_length)
next
  case (TranslateScaleRotate xo yo sx sy ra)
  with assms show ?thesis by (auto dest: translate_scale_rotate_length)
next
  case (PaperRotation degrees)
  with assms show ?thesis by (auto dest: paper_rotation_length)
next
  case (MysteryLines spiral_rate frequency)
  with assms show ?thesis by (auto dest: mystery_lines_length)
next
  case (LinearTranslation total_distance deg)
  with assms show ?thesis by (auto dest: linear_translation_length)
next
  case (PaperRotationNonLinear degrees rf)
  with assms(6) have r: "paper_rotation_transform_non_linear x y theta degrees rf = Inr (x', y')"
    by simp
  show ?thesis
    using r assms(1-3)
  proof (rule paper_rotation_non_linear_length)
    fix f and p :: ndarray assume "rf = RateCallable f" and "length p = N"
    with assms(5) PaperRotationNonLinear show "length (f p) = N" by simp
  qed
next
  case (SvgPath path scale ox oy)
  with assms show ?thesis by (auto dest: svg_path_length)
next
  case (Spiral spiral_rate a b)
  with assms show ?thesis by (auto dest: spiral_length)
next
  case (SpiralOscillator spiral_rate frequency const a b)
  with assms show ?thesis by (auto dest: spiral_oscillator_length)
next
  case (VariableSpiral start_rate end_rate a b)
  with assms show ?thesis by (auto dest: variable_spiral_length)
next
  case (VariableSpiralTriangle start_rate end_rate side1 side2 side3)
  with assms show ?thesis by (auto dest: variable_spiral_triangle_length)
next
  case (VariableSpiralRegularNgon start_rate end_rate side_lengths)
  with assms show ?thesis by (auto dest: variable_spiral_regular_ngon_length)
next
  case (VariableSpiralNgon start_rate end_rate side_lengths)
  with assms show ?thesis
    by (auto simp: variable_spiral_ngon_transform_def dest: variable_spiral_regular_ngon_length)
next
  case (EllipticalSpirograph R r d a b mode)
  with assms show ?thesis by (auto dest: elliptical_spirograph_length)
next
  case (Spirograph R r d mode)
  with assms show ?thesis by (auto dest: spirograph_length)
next
  case (PolygonSpirograph R n d mode)
  with assms show ?thesis by (auto dest: polygon_spirograph_length)
next
  case (SpirographRectangle w h g d)
  with assms show ?thesis by (auto dest: spirograph_rectangle_length)
qed

subsection \<open>Index alignment\<close>

text \<open>
  Every transform of the library acts sample by sample: the arithmetic ones because
  numpy's operators work element by element on arrays of one length, the looping ones
  because iteration \<open>i\<close> writes index \<open>i\<close> only.
\<close>

lemma samplewiseI:
  assumes "\<And>x y theta x' y' i. length x = length theta \<Longrightarrow> length y = length theta \<Longrightarrow>
             F x y theta = Inr (x', y') \<Longrightarrow> i < length theta \<Longrightarrow>
             x' ! i = fst (g (last theta) (x ! i) (y ! i) (theta ! i))
           \<and> y' ! i = snd (g (last theta) (x ! i) (y ! i) (theta ! i))"
  shows "samplewise F"
  unfolding samplewise_def using assms by blast

lemma circular_motion_samplewise:
  "samplewise (\<lambda>x y theta. circular_motion x y theta radius speed)"
  by (rule samplewiseI [where g = "\<lambda>L a b t. (a + radius * cos (speed * t), b + radius * sin (speed * t))"])
     (auto simp: circular_motion_def scalar_mul_def np_cos_def np_sin_def arr_add_same)

lemma translate_scale_rotate_samplewise:
  "samplewise (\<lambda>x y theta. translate_scale_rotate_transform x y theta xo yo sx sy ra)"
  by (rule samplewiseI [where g = "\<lambda>L a b t.
        (xo + (cos (deg2rad ra) * (sx * a) - sin (deg2rad ra) * (sy * b)),
         yo + (sin (deg2rad ra) * (sx * a) + cos (deg2rad ra) * (sy * b)))"])
     (auto simp: translate_scale_rotate_transform_def scalar_mul_def scalar_add_def Let_def
        arr_add_same arr_sub_same)

lemma rotate_by_eq_Inr:
  assumes "rotate_by x y phi = Inr (x', y')"
    and "length x = length phi" and "length y = length phi" and "i < length phi"
  shows "x' ! i = x ! i * cos (phi ! i) - y ! i * sin (phi ! i)
       \<and> y' ! i = x ! i * sin (phi ! i) + y ! i * cos (phi ! i)"
  using assms by (auto simp: rotate_by_same)

lemma paper_rotation_samplewise:
  "samplewise (\<lambda>x y theta. paper_rotation x y theta degrees)"
proof (rule samplewiseI [where g = "\<lambda>L a b t.
        (a * cos (deg2rad degrees * (t / L)) - b * sin (deg2rad degrees * (t / L)),
         a * sin (deg2rad degrees * (t / L)) + b * cos (deg2rad degrees * (t / L)))"])
  fix x y theta x' y' and i :: nat
  assume l: "length x = length theta" "length y = length theta"
    and r: "paper_rotation x y theta degrees = Inr (x', y')" and i: "i < length theta"
  from i have ne: "theta \<noteq> []" by auto
  obtain a b where ab: "paper_rotation x y theta degrees = Inr (a, b)"
    and n: "\<forall>i < length theta.
                 a ! i = x ! i * cos (deg2rad degrees * (theta ! i / last theta))
                         - y ! i * sin (deg2rad degrees * (theta ! i / last theta))
               \<and> b ! i = x ! i * sin (deg2rad degrees * (theta ! i / last theta))
                         + y ! i * cos (deg2rad degrees * (theta ! i / last theta))"
    using paper_rotation_nth [OF l ne, of degrees] by blast
  from ab r have "a = x'" "b = y'" by simp_all
  with n i show "x' ! i = fst (x ! i * cos (deg2rad degrees * (theta ! i / last theta))
                                - y ! i * sin (deg2rad degrees * (theta ! i / last theta)),
                              x ! i * sin (deg2rad degrees * (theta ! i / last theta))
                                + y ! i * cos (deg2rad degrees * (theta ! i / last theta)))
              \<and> y' ! i = snd (x ! i * cos (deg2rad degrees * (theta ! i / last theta))
                                - y ! i * sin (deg2rad degrees * (theta ! i / last theta)),
                              x ! i * sin (deg2rad degrees * (theta ! i / last theta))
                                + y ! i * cos (deg2rad degrees * (theta ! i / last theta)))"
    by simp
qed

lemma mystery_lines_samplewise:
  "samplewise (\<lambda>x y theta. mystery_lines x y theta spiral_rate frequency)"
  by (rule samplewiseI [where g = "\<lambda>L a b t.
        (a + (spiral_rate + spiral_rate * sin (frequency * t)) * sin t,
         b + (spiral_rate + spiral_rate * sin (frequency * t)) * sin t)"])
     (auto simp: mystery_lines_def mystery_r_def scalar_mul_def scalar_add_def np_sin_def
        Let_def arr_add_same arr_mul_same)

lemma linear_translation_samplewise:
  "samplewise (\<lambda>x y theta. linear_translation_transform x y theta total_distance deg)"
  by (rule samplewiseI [where g = "\<lambda>L a b t.
        (a + cos (deg2rad deg) * (total_distance * (t / L)),
         b + sin (deg2rad deg) * (total_distance * (t / L)))"])
     (auto simp: linear_translation_transform_def last_item_def scalar_mul_def div_scalar_def
        Let_def arr_add_same split: if_splits)

lemma spiral_samplewise:
  "samplewise (\<lambda>x y theta. spiral_transform x y theta spiral_rate a b)"
  by (rule samplewiseI [where g = "\<lambda>L u v t.
        (u + a * (1 + spiral_rate * t) * cos t, v + b * (1 + spiral_rate * t) * sin t)"])
     (auto simp: spiral_transform_def scalar_mul_def scalar_add_def np_cos_def np_sin_def
        Let_def arr_add_same arr_mul_same)

lemma spiral_oscillator_samplewise:
  "samplewise (\<lambda>x y theta. spiral_oscillator x y theta spiral_rate frequency const a b)"
  by (rule samplewiseI [where g = "\<lambda>L u v t.
        (u + a * (const + (spiral_rate + spiral_rate * sin (frequency * t))) * cos t,
         v + b * (const + (spiral_rate + spiral_rate * sin (frequency * t))) * sin t)"])
     (auto simp: spiral_oscillator_def scalar_mul_def scalar_add_def np_cos_def np_sin_def
        Let_def arr_add_same arr_mul_same)

lemma variable_r_nth:
  assumes "variable_r start_rate end_rate theta theta_max = Inr r"
  shows "length r = length theta
       \<and> (\<forall>i < length theta. r ! i = start_rate * theta ! i
             + (end_rate - start_rate) / (2 * theta_max) * (theta ! i)\<^sup>2)"
  using assms by (auto simp: variable_r_same scalar_mul_def)

lemma variable_spiral_samplewise:
  "samplewise (\<lambda>x y theta. variable_spiral_transform x y theta start_rate end_rate a b)"
  by (rule samplewiseI [where g = "\<lambda>L u v t.
        (u + a * (start_rate * t + (end_rate - start_rate) / (2 * L) * t\<^sup>2) * cos t,
         v + b * (start_rate * t + (end_rate - start_rate) / (2 * L) * t\<^sup>2) * sin t)"])
     (auto simp: variable_spiral_transform_def last_item_def variable_r_same scalar_mul_def
        np_cos_def np_sin_def arr_add_same arr_mul_same split: if_splits)

lemma spirograph_samplewise:
  "samplewise (\<lambda>x y theta. spirograph_transform x y theta R r d mode)"
  by (rule samplewiseI [where g = "\<lambda>L u v t.
        if mode = ''hypotrochoid''
        then (u + (R - r) * cos t + d * cos ((R - r) / r * t),
              v + (R - r) * sin t - d * sin ((R - r) / r * t))
        else (u + (R + r) * cos t - d * cos ((R + r) / r * t),
              v + (R + r) * sin t - d * sin ((R + r) / r * t))"])
     (auto simp: spirograph_transform_def py_div_def scalar_mul_def np_cos_def np_sin_def
        arr_add_same arr_sub_same split: if_splits)

lemma elliptical_spirograph_samplewise:
  "samplewise (\<lambda>x y theta. elliptical_spirograph_transform x y theta R r d a b mode)"
  by (rule samplewiseI [where g = "\<lambda>L u v t.
        if mode = ''hypotrochoid''
        then (u + (R - r) * cos t + d * (a / r) * cos ((R - r) / r * t),
              v + (R - r) * sin t - d * (b / r) * sin ((R - r) / r * t))
        else (u + (R + r) * cos t - d * (a / r) * cos ((R + r) / r * t),
              v + (R + r) * sin t - d * (b / r) * sin ((R + r) / r * t))"])
     (auto simp: elliptical_spirograph_transform_def py_div_def scalar_mul_def np_cos_def
        np_sin_def arr_add_same arr_sub_same split: if_splits)

lemma cyclogon_branch_nth:
  assumes "bindE (arr_sub (div_scalar (scalar_mul c theta) r) (scalar_mul k (scalar_mul q theta)))
             (\<lambda>phi.
                bindE (arr_add x (scalar_mul c (np_cos theta))) (\<lambda>x1.
                bindE (arr_add x1 (scalar_mul d (np_cos phi))) (\<lambda>x_transformed.
                bindE (arr_add y (scalar_mul c (np_sin theta))) (\<lambda>y1.
                bindE (arr_add y1 (scalar_mul d (np_sin phi))) (\<lambda>y_transformed.
                Inr (x_transformed, y_transformed)))))) = Inr (x', y')"
    and "length x = length theta" and "length y = length theta" and "i < length theta"
  shows "x' ! i = x ! i + c * cos (theta ! i) + d * cos (c * theta ! i / r - k * (q * theta ! i))
       \<and> y' ! i = y ! i + c * sin (theta ! i) + d * sin (c * theta ! i / r - k * (q * theta ! i))"
  using assms
  by (auto simp: scalar_mul_def div_scalar_def np_cos_def np_sin_def arr_add_same arr_sub_same)

lemma polygon_spirograph_samplewise:
  "samplewise (\<lambda>x y theta. polygon_spirograph_transform x y theta R n d mode)"
proof -
  define r where "r = (if mode = ''hypocyclogon'' then R * (sin (pi / n) / (1 + sin (pi / n)))
                       else R * (sin (pi / n) / (1 - sin (pi / n))))"
  define g where "g = (\<lambda>(L :: real) u v t.
        if mode = ''hypocyclogon''
        then (u + (R - r) * cos t + d * cos ((R - r) * t / r - 2 * pi / n * ((R - r) / r * t)),
              v + (R - r) * sin t + d * sin ((R - r) * t / r - 2 * pi / n * ((R - r) / r * t)))
        else (u + (R + r) * cos t + d * cos ((R + r) * t / r - 2 * pi / n * ((R + r) / r * t)),
              v + (R + r) * sin t + d * sin ((R + r) * t / r - 2 * pi / n * ((R + r) / r * t))))"
  show ?thesis
  proof (rule samplewiseI [where g = g])
    fix x y theta x' y' and i :: nat
    assume l: "length x = length theta" "length y = length theta"
      and res: "polygon_spirograph_transform x y theta R n d mode = Inr (x', y')"
      and i: "i < length theta"
    from res have n: "n \<noteq> 0"
      by (auto simp: polygon_spirograph_transform_def py_div_def split: if_splits)
    from res n have m: "mode = ''hypocyclogon'' \<or> mode = ''epicyclogon''"
      by (auto simp: polygon_spirograph_transform_def py_div_def Let_def split: if_splits)
    show "x' ! i = fst (g (last theta) (x ! i) (y ! i) (theta ! i))
        \<and> y' ! i = snd (g (last theta) (x ! i) (y ! i) (theta ! i))"
    proof (cases "mode = ''hypocyclogon''")
      case True
      then have r: "r = R * (sin (pi / n) / (1 + sin (pi / n)))" by (simp add: r_def)
      from res n True
      have "bindE (arr_sub (div_scalar (scalar_mul (R - r) theta) r)
                     (scalar_mul (2 * pi / n) (scalar_mul ((R - r) / r) theta)))
             (\<lambda>phi.
                bindE (arr_add x (scalar_mul (R - r) (np_cos theta))) (\<lambda>x1.
                bindE (arr_add x1 (scalar_mul d (np_cos phi))) (\<lambda>x_transformed.
                bindE (arr_add y (scalar_mul (R - r) (np_sin theta))) (\<lambda>y1.
                bindE (arr_add y1 (scalar_mul d (np_sin phi))) (\<lambda>y_transformed.
                Inr (x_transformed, y_transformed)))))) = Inr (x', y')"
        unfolding r polygon_spirograph_transform_def py_div_def Let_def by simp
      from cyclogon_branch_nth [OF this l i] True show ?thesis
        by (simp add: g_def)
    next
      case False
      with m have e: "mode = ''epicyclogon''" by simp
      from False have r: "r = R * (sin (pi / n) / (1 - sin (pi / n)))" by (simp add: r_def)
      from res n e
      have "bindE (arr_sub (div_scalar (scalar_mul (R + r) theta) r)
                     (scalar_mul (2 * pi / n) (scalar_mul ((R + r) / r) theta)))
             (\<lambda>phi.
                bindE (arr_add x (scalar_mul (R + r) (np_cos theta))) (\<lambda>x1.
                bindE (arr_add x1 (scalar_mul d (np_cos phi))) (\<lambda>x_transformed.
                bindE (arr_add y (scalar_mul (R + r) (np_sin theta))) (\<lambda>y1.
                bindE (arr_add y1 (scalar_mul d (np_sin phi))) (\<lambda>y_transformed.
                Inr (x_transformed, y_transformed)))))) = Inr (x', y')"
        unfolding r polygon_spirograph_transform_def py_div_def Let_def by simp
      from cyclogon_branch_nth [OF this l i] False show ?thesis
        by (simp add: g_def)
    qed
  qed
qed

lemma rotation_phi_pointwise:
  assumes "\<And>f. rf = RateCallable f \<Longrightarrow> \<exists>g. \<forall>p. f p = map g p"
  shows "\<exists>h. \<forall>ps phi. rotation_phi rf ps tot = Inr phi \<longrightarrow> phi = map h ps"
proof (cases rf)
  case (RateName name)
  show ?thesis
    unfolding RateName
    by (rule exI [where x = "\<lambda>p. if name = ''linear'' then tot * p
                              else if name = ''quadratic'' then tot * p\<^sup>2
                              else tot * sin (pi * p / 2)"])
       (auto simp: rotation_phi_def scalar_mul_def div_scalar_def np_sin_def split: if_splits)
next
  case (RateCallable f)
  with assms obtain g where g: "\<forall>p. f p = map g p" by blast
  show ?thesis
    unfolding RateCallable
    by (rule exI [where x = "\<lambda>p. tot * min 1 (max 0 (g p))"])
       (auto simp: rotation_phi_def scalar_mul_def np_clip_def Let_def g)
qed

lemma paper_rotation_non_linear_samplewise:
  assumes "\<And>f. rf = RateCallable f \<Longrightarrow> \<exists>g. \<forall>p. f p = map g p"
  shows "samplewise (\<lambda>x y theta. paper_rotation_transform_non_linear x y theta degrees rf)"
proof -
  obtain h where h: "\<And>ps phi. rotation_phi rf ps (deg2rad degrees) = Inr phi \<Longrightarrow> phi = map h ps"
    using rotation_phi_pointwise [OF assms, where tot = "deg2rad degrees"] by blast
  show ?thesis
  proof (rule samplewiseI [where g = "\<lambda>L a b t.
        (a * cos (h (t / L)) - b * sin (h (t / L)), a * sin (h (t / L)) + b * cos (h (t / L)))"])
    fix x y theta x' y' and i :: nat
    assume l: "length x = length theta" "length y = length theta"
      and r: "paper_rotation_transform_non_linear x y theta degrees rf = Inr (x', y')"
      and i: "i < length theta"
    let ?ps = "div_scalar theta (last theta)"
    from i have ne: "theta \<noteq> []" by auto
    with r have "bindE (rotation_phi rf ?ps (deg2rad degrees)) (rotate_by x y) = Inr (x', y')"
      by (simp add: paper_rotation_transform_non_linear_def last_item_def Let_def)
    then obtain phi where p: "rotation_phi rf ?ps (deg2rad degrees) = Inr phi"
      and rb: "rotate_by x y phi = Inr (x', y')"
      unfolding bindE_eq_Inr by blast
    from h [OF p] have phi: "phi = map h ?ps" .
    then have lp: "length phi = length theta" by simp
    have pi: "phi ! i = h (theta ! i / last theta)"
      using i by (simp add: phi div_scalar_def)
    from rotate_by_eq_Inr [OF rb _ _ _, of i] l lp i
    have "x' ! i = x ! i * cos (phi ! i) - y ! i * sin (phi ! i)
        \<and> y' ! i = x ! i * sin (phi ! i) + y ! i * cos (phi ! i)" by simp
    then show "x' ! i = fst (x ! i * cos (h (theta ! i / last theta))
                              - y ! i * sin (h (theta ! i / last theta)),
                            x ! i * sin (h (theta ! i / last theta))
                              + y ! i * cos (h (theta ! i / last theta)))
            \<and> y' ! i = snd (x ! i * cos (h (theta ! i / last theta))
                              - y ! i * sin (h (theta ! i / last theta)),
                            x ! i * sin (h (theta ! i / last theta))
                              + y ! i * cos (h (theta ! i / last theta)))"
      by (simp add: pi)
  qed
qed

lemma svg_path_samplewise:
  "samplewise (\<lambda>x y theta. svg_path_transform x y theta path scale ox oy)"
proof -
  define total where "total = path_length path 0 1"
  define tv where "tv = projr (linspace 0 1 num_samples)"
  define cl where "cl = projr (set_last (maximum_accumulate (map (path_length path 0) tv)) total)"
  show ?thesis
    by (rule samplewiseI [where g = "\<lambda>L a b t.
          (ox + scale * Re (path_point path (interp_at cl tv (total * (t / L)))),
           oy + scale * Im (path_point path (interp_at cl tv (total * (t / L)))))"])
       (auto simp: svg_path_transform_def last_item_def Let_def bindE_eq_Inr np_interp_def
          scalar_mul_def scalar_add_def div_scalar_def total_def tv_def cl_def split: if_splits)
qed

lemma for_each_enumerate_nth:
  assumes step: "\<And>j a xt yt s'. body (j, a) (xt, yt) = Inr s' \<Longrightarrow>
             j < length xt \<and> j < length yt
           \<and> s' = (xt[j := gx j a (xt ! j)], yt[j := gy j a (yt ! j)])"
    and run: "for_each body (zip [k..<k + length as] as) (xt, yt) = Inr (x', y')"
  shows "length x' = length xt \<and> length y' = length yt
       \<and> (\<forall>j < length xt. x' ! j = (if k \<le> j \<and> j < k + length as
                                        then gx j (as ! (j - k)) (xt ! j) else xt ! j))
       \<and> (\<forall>j < length yt. y' ! j = (if k \<le> j \<and> j < k + length as
                                        then gy j (as ! (j - k)) (yt ! j) else yt ! j))"
  using run
proof (induction as arbitrary: k xt yt)
  case Nil
  then show ?case by auto
next
  case (Cons a as)
  have "[k..<k + length (a # as)] = k # [Suc k..<Suc k + length as]"
    by (subst upt_rec) simp
  then have z: "zip [k..<k + length (a # as)] (a # as) = (k, a) # zip [Suc k..<Suc k + length as] as"
    by (simp only: zip_Cons_Cons)
  from Cons.prems obtain s1 where b: "body (k, a) (xt, yt) = Inr s1"
    and f: "for_each body (zip [Suc k..<Suc k + length as] as) s1 = Inr (x', y')"
    unfolding z by (auto simp: bindE_eq_Inr)
  let ?xt = "xt[k := gx k a (xt ! k)]" and ?yt = "yt[k := gy k a (yt ! k)]"
  from step [OF b] have k: "k < length xt" "k < length yt" and s1: "s1 = (?xt, ?yt)"
    by simp_all
  from Cons.IH [OF f [unfolded s1]]
  have l: "length x' = length xt" "length y' = length yt"
    and nx: "\<And>j. j < length xt \<Longrightarrow> x' ! j = (if Suc k \<le> j \<and> j < Suc k + length as
                 then gx j (as ! (j - Suc k)) (?xt ! j) else ?xt ! j)"
    and ny: "\<And>j. j < length yt \<Longrightarrow> y' ! j = (if Suc k \<le> j \<and> j < Suc k + length as
                 then gy j (as ! (j - Suc k)) (?yt ! j) else ?yt ! j)"
    by simp_all
  have "x' ! j = (if k \<le> j \<and> j < k + length (a # as)
                  then gx j ((a # as) ! (j - k)) (xt ! j) else xt ! j)" if "j < length xt" for j
  proof (cases "j = k")
    case True
    then show ?thesis using nx [OF that] k by simp
  next
    case False
    then show ?thesis using nx [OF that] by (cases "k < j") (auto simp: nth_Cons')
  qed
  moreover
  have "y' ! j = (if k \<le> j \<and> j < k + length (a # as)
                  then gy j ((a # as) ! (j - k)) (yt ! j) else yt ! j)" if "j < length yt" for j
  proof (cases "j = k")
    case True
    then show ?thesis using ny [OF that] k by simp
  next
    case False
    then show ?thesis using ny [OF that] by (cases "k < j") (auto simp: nth_Cons')
  qed
  ultimately show ?case using l by blast
qed

lemma enumerate_loop_nth:
  assumes step: "\<And>j a xt yt s'. body (j, a) (xt, yt) = Inr s' \<Longrightarrow>
             j < length xt \<and> j < length yt
           \<and> s' = (xt[j := gx j a (xt ! j)], yt[j := gy j a (yt ! j)])"
    and run: "for_each body (enumerate_arr theta) (xt, yt) = Inr (x', y')"
    and "length xt = length theta" and "length yt = length theta" and "i < length theta"
  shows "x' ! i = gx i (theta ! i) (xt ! i) \<and> y' ! i = gy i (theta ! i) (yt ! i)"
proof -
  have "for_each body (zip [0..<0 + length theta] theta) (xt, yt) = Inr (x', y')"
    using run by (simp add: enumerate_arr_def)
  from for_each_enumerate_nth [where body = body and gx = gx and gy = gy, OF step this] assms(3-5)
  show ?thesis by simp
qed

lemma store_scaled_step:
  assumes "store_scaled r j p (xt, yt) = Inr s'"
  shows "j < length xt \<and> j < length yt
       \<and> s' = (xt[j := r ! j * fst p], yt[j := r ! j * snd p])"
  using assms
  by (auto simp: store_scaled_def bindE_eq_Inr setitem_eq_Inr getitem_eq_Inr)

lemma rectangle_body_step:
  assumes "rectangle_body w h g d (j, a) (xt, yt) = Inr s'"
  shows "j < length xt \<and> j < length yt
       \<and> s' = (xt[j := xt ! j + (fst (gear_center w h g a) + d * cos (a * (w + h) / g))],
               yt[j := yt ! j + (snd (gear_center w h g a) + d * sin (a * (w + h) / g))])"
  using assms
  by (auto simp: rectangle_body_def Let_def bindE_eq_Inr setitem_eq_Inr getitem_eq_Inr)

lemma spirograph_rectangle_samplewise:
  "samplewise (\<lambda>x y theta. spirograph_rectangle_transform x y theta w h g d)"
proof (rule samplewiseI [where g = "\<lambda>L u v t.
        (u + (fst (gear_center w h g t) + d * cos (t * (w + h) / g)),
         v + (snd (gear_center w h g t) + d * sin (t * (w + h) / g)))"])
  fix x y theta x' y' and i :: nat
  assume l: "length x = length theta" "length y = length theta"
    and r: "spirograph_rectangle_transform x y theta w h g d = Inr (x', y')"
    and i: "i < length theta"
  from r have run: "for_each (rectangle_body w h g d) (enumerate_arr theta) (x, y) = Inr (x', y')"
    by (simp add: spirograph_rectangle_transform_def)
  let ?gx = "\<lambda>(j :: nat) a old. old + (fst (gear_center w h g a) + d * cos (a * (w + h) / g))"
  let ?gy = "\<lambda>(j :: nat) a old. old + (snd (gear_center w h g a) + d * sin (a * (w + h) / g))"
  have step: "j < length xt \<and> j < length yt
       \<and> s' = (xt[j := ?gx j a (xt ! j)], yt[j := ?gy j a (yt ! j)])"
    if "rectangle_body w h g d (j, a) (xt, yt) = Inr s'" for j a xt yt s'
    using rectangle_body_step [OF that] by simp
  from enumerate_loop_nth [where body = "rectangle_body w h g d" and gx = ?gx and gy = ?gy,
      OF step run l i]
  show "x' ! i = fst (x ! i + (fst (gear_center w h g (theta ! i)) + d * cos (theta ! i * (w + h) / g)),
                      y ! i + (snd (gear_center w h g (theta ! i)) + d * sin (theta ! i * (w + h) / g)))
      \<and> y' ! i = snd (x ! i + (fst (gear_center w h g (theta ! i)) + d * cos (theta ! i * (w + h) / g)),
                      y ! i + (snd (gear_center w h g (theta ! i)) + d * sin (theta ! i * (w + h) / g)))"
    by simp
qed

lemma scaled_loop_nth:
  assumes body: "\<And>j a s s'. body (j, a) s = Inr s' \<Longrightarrow> store_scaled r j (P a) s = Inr s'"
    and run: "for_each body (enumerate_arr theta) (zeros_like x, zeros_like y) = Inr (x', y')"
    and "length x = length theta" and "length y = length theta" and "i < length theta"
  shows "x' ! i = r ! i * fst (P (theta ! i)) \<and> y' ! i = r ! i * snd (P (theta ! i))"
proof -
  let ?gx = "\<lambda>j a (old :: real). r ! j * fst (P a)"
  let ?gy = "\<lambda>j a (old :: real). r ! j * snd (P a)"
  have step: "j < length xt \<and> j < length yt
       \<and> s' = (xt[j := ?gx j a (xt ! j)], yt[j := ?gy j a (yt ! j)])"
    if "body (j, a) (xt, yt) = Inr s'" for j a xt yt s'
    using store_scaled_step [OF body [OF that]] by simp
  have l: "length (zeros_like x) = length theta" "length (zeros_like y) = length theta"
    using assms(3,4) by simp_all
  from enumerate_loop_nth [where body = body and gx = ?gx and gy = ?gy, OF step run l assms(5)]
  show ?thesis by simp
qed

lemma variable_spiral_triangle_samplewise:
  "samplewise (\<lambda>x y theta.
     variable_spiral_triangle_transform x y theta start_rate end_rate side1 side2 side3)"
proof -
  define v1 :: point where "v1 = (0, 1)"
  define v2 :: point where "v2 = (- side1 * sqrt 3 / 2, - 0.5 * side1)"
  define v3 :: point where "v3 = (side3 * sqrt 3 / 2, - 0.5 * side3)"
  define rr where "rr = (\<lambda>L t. start_rate * t + (end_rate - start_rate) / (2 * L) * t\<^sup>2)"
  show ?thesis
  proof (rule samplewiseI [where g = "\<lambda>L u v t.
        (rr L t * fst (triangle_point v1 v2 v3 t), rr L t * snd (triangle_point v1 v2 v3 t))"])
    fix x y theta x' y' and i :: nat
    assume l: "length x = length theta" "length y = length theta"
      and res: "variable_spiral_triangle_transform x y theta start_rate end_rate side1 side2 side3
                  = Inr (x', y')"
      and i: "i < length theta"
    from i have ne: "theta \<noteq> []" by auto
    from res ne obtain r where r: "variable_r start_rate end_rate theta (last theta) = Inr r"
      and run: "for_each (triangle_body v1 v2 v3 r) (enumerate_arr theta) (zeros_like x, zeros_like y)
                  = Inr (x', y')"
      unfolding variable_spiral_triangle_transform_def Let_def last_item_def v1_def v2_def v3_def
      by (auto simp: bindE_eq_Inr)
    have body: "store_scaled r j (triangle_point v1 v2 v3 a) s = Inr s'"
      if "triangle_body v1 v2 v3 r (j, a) s = Inr s'" for j a s s'
      using that by (simp add: triangle_body_def)
    from variable_r_nth [OF r] i have ri: "r ! i = rr (last theta) (theta ! i)"
      by (simp add: rr_def)
    from scaled_loop_nth [where body = "triangle_body v1 v2 v3 r" and P = "triangle_point v1 v2 v3",
        OF body run l i]
    show "x' ! i = fst (rr (last theta) (theta ! i) * fst (triangle_point v1 v2 v3 (theta ! i)),
                        rr (last theta) (theta ! i) * snd (triangle_point v1 v2 v3 (theta ! i)))
        \<and> y' ! i = snd (rr (last theta) (theta ! i) * fst (triangle_point v1 v2 v3 (theta ! i)),
                        rr (last theta) (theta ! i) * snd (triangle_point v1 v2 v3 (theta ! i)))"
      by (simp add: ri)
  qed
qed

lemma variable_spiral_regular_ngon_samplewise:
  "samplewise (\<lambda>x y theta.
     variable_spiral_regular_ngon_transform x y theta start_rate end_rate side_lengths)"
proof -
  define n where "n = length side_lengths"
  define vs where "vs = projr (ngon_vertices side_lengths)"
  define seg where "seg = 2 * pi / real n"
  define rr where "rr = (\<lambda>L t. start_rate * t + (end_rate - start_rate) / (2 * L) * t\<^sup>2)"
  define P where "P = (\<lambda>a. lerp (py_mod (py_mod a (2 * pi)) seg / seg)
                          (projr (getitem_int vs (py_floordiv (py_mod a (2 * pi)) seg)))
                          (projr (getitem_int vs ((py_floordiv (py_mod a (2 * pi)) seg + 1) mod int n))))"
  show ?thesis
  proof (rule samplewiseI [where g = "\<lambda>L u v t. (rr L t * fst (P t), rr L t * snd (P t))"])
    fix x y theta x' y' and i :: nat
    assume l: "length x = length theta" "length y = length theta"
      and res: "variable_spiral_regular_ngon_transform x y theta start_rate end_rate side_lengths
                  = Inr (x', y')"
      and i: "i < length theta"
    from i have ne: "theta \<noteq> []" by auto
    from res ne obtain r vertices where
      r: "variable_r start_rate end_rate theta (last theta) = Inr r"
      and v: "ngon_vertices side_lengths = Inr vertices"
      and run: "for_each (ngon_body n vertices r) (enumerate_arr theta) (zeros_like x, zeros_like y)
                  = Inr (x', y')"
      unfolding variable_spiral_regular_ngon_transform_def Let_def last_item_def n_def
      by (auto simp: bindE_eq_Inr)
    from v have vs: "vertices = vs" by (simp add: vs_def)
    have body: "store_scaled r j (P a) s = Inr s'"
      if "ngon_body n vs r (j, a) s = Inr s'" for j a s s'
      using that
      by (auto simp: ngon_body_def Let_def bindE_eq_Inr py_div_def P_def seg_def split: if_splits)
    from variable_r_nth [OF r] i have ri: "r ! i = rr (last theta) (theta ! i)"
      by (simp add: rr_def)
    from scaled_loop_nth [where body = "ngon_body n vs r" and P = P, OF body run [unfolded vs] l i]
    show "x' ! i = fst (rr (last theta) (theta ! i) * fst (P (theta ! i)),
                        rr (last theta) (theta ! i) * snd (P (theta ! i)))
        \<and> y' ! i = snd (rr (last theta) (theta ! i) * fst (P (theta ! i)),
                        rr (last theta) (theta ! i) * snd (P (theta ! i)))"
      by (simp add: ri)
  qed
qed

lemma transform_samplewise:
  assumes "callable_elementwise t"
  shows "samplewise (transform t)"
proof (cases t)
  case (CircularMotion radius speed)
  have "transform t = (\<lambda>x y theta. circular_motion x y theta radius speed)"
    unfolding CircularMotion by (intro ext) simp
  then show ?thesis by (simp only: circular_motion_samplewise)
next
  case (TranslateScaleRotate xo yo sx sy ra)
  have "transform t = (\<lambda>x y theta. translate_scale_rotate_transform x y theta xo yo sx sy ra)"
    unfolding TranslateScaleRotate by (intro ext) simp
  then show ?thesis by (simp only: translate_scale_rotate_samplewise)
next
  case (PaperRotation degrees)
  have "transform t = (\<lambda>x y theta. paper_rotation x y theta degrees)"
    unfolding PaperRotation by (intro ext) simp
  then show ?thesis by (simp only: paper_rotation_samplewise)
next
  case (MysteryLines spiral_rate frequency)
  have "transform t = (\<lambda>x y theta. mystery_lines x y theta spiral_rate frequency)"
    unfolding MysteryLines by (intro ext) simp
  then show ?thesis by (simp only: mystery_lines_samplewise)
next
  case (LinearTranslation total_distance deg)
  have "transform t = (\<lambda>x y theta. linear_translation_transform x y theta total_distance deg)"
    unfolding LinearTranslation by (intro ext) simp
  then show ?thesis by (simp only: linear_translation_samplewise)
next
  case (PaperRotationNonLinear degrees rf)
  have e: "transform t = (\<lambda>x y theta. paper_rotation_transform_non_linear x y theta degrees rf)"
    unfolding PaperRotationNonLinear by (intro ext) simp
  have "\<exists>g. \<forall>p. f p = map g p" if "rf = RateCallable f" for f
    using assms that PaperRotationNonLinear by simp
  then have "samplewise (\<lambda>x y theta. paper_rotation_transform_non_linear x y theta degrees rf)"
    by (rule paper_rotation_non_linear_samplewise)
  with e show ?thesis by (simp only:)
next
  case (SvgPath path scale ox oy)
  have "transform t = (\<lambda>x y theta. svg_path_transform x y theta path scale ox oy)"
    unfolding SvgPath by (intro ext) simp
  then show ?thesis by (simp only: svg_path_samplewise)
next
  case (Spiral spiral_rate a b)
  have "transform t = (\<lambda>x y theta. spiral_transform x y theta spiral_rate a b)"
    unfolding Spiral by (intro ext) simp
  then show ?thesis by (simp only: spiral_samplewise)
next
  case (SpiralOscillator spiral_rate frequency const a b)
  have "transform t = (\<lambda>x y theta. spiral_oscillator x y theta spiral_rate frequency const a b)"
    unfolding SpiralOscillator by (intro ext) simp
  then show ?thesis by (simp only: spiral_oscillator_samplewise)
next
  case (VariableSpiral start_rate end_rate a b)
  have "transform t = (\<lambda>x y theta. variable_spiral_transform x y theta start_rate end_rate a b)"
    unfolding VariableSpiral by (intro ext) simp
  then show ?thesis by (simp only: variable_spiral_samplewise)
next
  case (VariableSpiralTriangle start_rate end_rate side1 side2 side3)
  have "transform t = (\<lambda>x y theta.
          variable_spiral_triangle_transform x y theta start_rate end_rate side1 side2 side3)"
    unfolding VariableSpiralTriangle by (intro ext) simp
  then show ?thesis by (simp only: variable_spiral_triangle_samplewise)
next
  case (VariableSpiralRegularNgon start_rate end_rate side_lengths)
  have "transform t = (\<lambda>x y theta.
          variable_spiral_regular_ngon_transform x y theta start_rate end_rate side_lengths)"
    unfolding VariableSpiralRegularNgon by (intro ext) simp
  then show ?thesis by (simp only: variable_spiral_regular_ngon_samplewise)
next
  case (VariableSpiralNgon start_rate end_rate side_lengths)
  have "transform t = (\<lambda>x y theta.
          variable_spiral_regular_ngon_transform x y theta start_rate end_rate side_lengths)"
    unfolding VariableSpiralNgon by (intro ext) (simp add: variable_spiral_ngon_transform_def)
  then show ?thesis by (simp only: variable_spiral_regular_ngon_samplewise)
next
  case (EllipticalSpirograph R r d a b mode)
  have "transform t = (\<lambda>x y theta. elliptical_spirograph_transform x y theta R r d a b mode)"
    unfolding EllipticalSpirograph by (intro ext) simp
  then show ?thesis by (simp only: elliptical_spirograph_samplewise)
next
  case (Spirograph R r d mode)
  have "transform t = (\<lambda>x y theta. spirograph_transform x y theta R r d mode)"
    unfolding Spirograph by (intro ext) simp
  then show ?thesis by (simp only: spirograph_samplewise)
next
  case (PolygonSpirograph R n d mode)
  have "transform t = (\<lambda>x y theta. polygon_spirograph_transform x y theta R n d mode)"
    unfolding PolygonSpirograph by (intro ext) simp
  then show ?thesis by (simp only: polygon_spirograph_samplewise)
next
  case (SpirographRectangle w h g d)
  have "transform t = (\<lambda>x y theta. spirograph_rectangle_transform x y theta w h g d)"
    unfolding SpirographRectangle by (intro ext) simp
  then show ?thesis by (simp only: spirograph_rectangle_samplewise)
qed

lemma samplewise_two_runs:
  assumes "samplewise F"
    and "F x y theta = Inr (x', y')" and "length x = length theta" and "length y = length theta"
    and "F x2 y2 theta2 = Inr (x2', y2')" and "length x2 = length theta2"
    and "length y2 = length theta2"
    and "i < length theta" and "i < length theta2"
    and "x2 ! i = x ! i" and "y2 ! i = y ! i" and "theta2 ! i = theta ! i"
    and "last theta2 = last theta"
  shows "x2' ! i = x' ! i \<and> y2' ! i = y' ! i"
proof -
  from assms(1) obtain g where g: "\<And>x y theta x' y' i.
      length x = length theta \<Longrightarrow> length y = length theta \<Longrightarrow> F x y theta = Inr (x', y') \<Longrightarrow>
      i < length theta \<Longrightarrow>
        x' ! i = fst (g (last theta) (x ! i) (y ! i) (theta ! i))
      \<and> y' ! i = snd (g (last theta) (x ! i) (y ! i) (theta ! i))"
    unfolding samplewise_def by blast
  from g [OF assms(3,4,2,8)] g [OF assms(6,7,5,9)] assms(10-13) show ?thesis by simp
qed

subsection \<open>Length and alignment of every transform\<close>

text \<open>
  Claim C3 says that every transform of the library returns two sequences of the length
  \<open>N\<close> of its equal-length inputs. A custom rate callable is applied to the whole array of
  normalized angles and its result is broadcast against \<open>x\<close> and \<open>y\<close>: for \<open>N = 1\<close> a
  callable that returns two values makes \<open>paper_rotation_transform_non_linear\<close> return
  two points.
\<close>

theorem custom_callable_counterexample:
  "transform (PaperRotationNonLinear 90 (RateCallable ((@) [0]))) [1] [0] [1]
     = Inr ([1, 0], [0, 1])"
  by (simp add: paper_rotation_transform_non_linear_def last_item_def div_scalar_def
      rotation_phi_def np_clip_def scalar_mul_def deg2rad_def rotate_by_def np_cos_def np_sin_def
      arr_mul_def arr_sub_def arr_add_def broadcast2_def Let_def)

text \<open>
  Claim C3, amended. For every transform of the library with its bound parameters and
  equal-length \<open>x\<close>, \<open>y\<close>, \<open>theta\<close> of length \<open>N \<ge> 1\<close>, whenever the call returns:
  both output sequences have length \<open>N\<close>, provided a custom rate callable, if there is
  one, returns an array as long as its argument; and output index \<open>i\<close> corresponds to
  \<open>theta[i]\<close>, in that any other returning call whose inputs have the same sample
  \<open>(x[i], y[i], theta[i])\<close> at index \<open>i\<close> and the same last angle has the same output at
  index \<open>i\<close>, provided a custom rate callable, if there is one, acts element-wise.
\<close>

theorem transform_length_alignment:
  assumes "length x = N" and "length y = N" and "length theta = N" and "1 \<le> N"
    and "transform t x y theta = Inr (x', y')"
  shows "(callable_keeps_shape t N \<longrightarrow> length x' = N \<and> length y' = N)
       \<and> (callable_elementwise t \<longrightarrow>
            (\<forall>x2 y2 theta2 x2' y2' i.
               length x2 = length theta2 \<and> length y2 = length theta2
             \<and> transform t x2 y2 theta2 = Inr (x2', y2')
             \<and> i < N \<and> i < length theta2
             \<and> x2 ! i = x ! i \<and> y2 ! i = y ! i \<and> theta2 ! i = theta ! i
             \<and> last theta2 = last theta
             \<longrightarrow> x2' ! i = x' ! i \<and> y2' ! i = y' ! i))"
proof (intro conjI impI allI)
  assume k: "callable_keeps_shape t N"
  from transform_length [OF assms(1-4) k assms(5)]
  show "length x' = N" and "length y' = N" by simp_all
next
  fix x2 y2 theta2 x2' y2' i
  assume e: "callable_elementwise t"
    and h: "length x2 = length theta2 \<and> length y2 = length theta2
             \<and> transform t x2 y2 theta2 = Inr (x2', y2')
             \<and> i < N \<and> i < length theta2
             \<and> x2 ! i = x ! i \<and> y2 ! i = y ! i \<and> theta2 ! i = theta ! i
             \<and> last theta2 = last theta"
  have "x2' ! i = x' ! i \<and> y2' ! i = y' ! i"
    using transform_samplewise [OF e] assms(5)
  proof (rule samplewise_two_runs)
    show "transform t x2 y2 theta2 = Inr (x2', y2')" using h by simp
  qed (use assms(1-3) h in simp_all)
  then show "x2' ! i = x' ! i" and "y2' ! i = y' ! i" by simp_all
qed

theorem transform_length_alignment_witness:
  "\<exists>x' y' x2' y2'.
      transform (CircularMotion 10 1) [0, 0, 0] [0, 0, 0] [0, pi / 2, pi] = Inr (x', y')
    \<and> length x' = 3 \<and> length y' = 3
    \<and> transform (CircularMotion 10 1) [1, 0, 2] [3, 0, 4] [5, pi / 2, pi] = Inr (x2', y2')
    \<and> x2' ! 1 = x' ! 1 \<and> y2' ! 1 = y' ! 1"
proof -
  let ?t = "CircularMotion 10 1"
  let ?x' = "[10, 0, - 10 :: real]" and ?y' = "[0, 10, 0 :: real]"
  let ?x2' = "[1 + 10 * cos 5, 0, - 8 :: real]" and ?y2' = "[3 + 10 * sin 5, 10, 4 :: real]"
  have r1: "transform ?t [0, 0, 0] [0, 0, 0] [0, pi / 2, pi] = Inr (?x', ?y')"
    by (simp add: circular_motion_def scalar_mul_def np_cos_def np_sin_def arr_add_same)
  have r2: "transform ?t [1, 0, 2] [3, 0, 4] [5, pi / 2, pi] = Inr (?x2', ?y2')"
    by (simp add: circular_motion_def scalar_mul_def np_cos_def np_sin_def arr_add_same)
  have k: "callable_keeps_shape ?t 3" and e: "callable_elementwise ?t" by simp_all
  have T: "(callable_keeps_shape ?t 3 \<longrightarrow> length ?x' = 3 \<and> length ?y' = 3)
       \<and> (callable_elementwise ?t \<longrightarrow>
            (\<forall>x2 y2 theta2 x2' y2' i.
               length x2 = length theta2 \<and> length y2 = length theta2
             \<and> transform ?t x2 y2 theta2 = Inr (x2', y2')
             \<and> i < 3 \<and> i < length theta2
             \<and> x2 ! i = [0, 0, 0] ! i \<and> y2 ! i = [0, 0, 0] ! i
             \<and> theta2 ! i = [0, pi / 2, pi] ! i
             \<and> last theta2 = last [0, pi / 2, pi]
             \<longrightarrow> x2' ! i = ?x' ! i \<and> y2' ! i = ?y' ! i))"
    by (rule transform_length_alignment [where N = 3, OF _ _ _ _ r1]) simp_all
  note len = conjunct1 [OF T, THEN mp, OF k]
  note al = conjunct2 [OF T, THEN mp, OF e, rule_format,
      of "[1, 0, 2]" "[5, pi / 2, pi]" "[3, 0, 4]" ?x2' ?y2' 1]
  have "length [1, 0, 2 :: real] = length [5, pi / 2, pi]
      \<and> length [3, 0, 4 :: real] = length [5, pi / 2, pi]
      \<and> transform ?t [1, 0, 2] [3, 0, 4] [5, pi / 2, pi] = Inr (?x2', ?y2')
      \<and> (1 :: nat) < 3 \<and> 1 < length [5, pi / 2, pi]
      \<and> [1, 0, 2 :: real] ! 1 = [0, 0, 0] ! 1 \<and> [3, 0, 4 :: real] ! 1 = [0, 0, 0] ! 1
      \<and> [5, pi / 2, pi] ! 1 = [0, pi / 2, pi] ! 1
      \<and> last [5, pi / 2, pi] = last [0, pi / 2, pi]"
    by (intro conjI r2) simp_all
  from al [OF this] have "?x2' ! 1 = ?x' ! 1 \<and> ?y2' ! 1 = ?y' ! 1" .
  with r1 r2 len show ?thesis by blast
qed

end
